theory Spec2Isabelle
  imports Complex_Main "HOL-Library.Product_Lexorder" "HOL-Library.Multiset"
begin

section \<open>Values shared by the ranking function and the edge function\<close>

text \<open>
  A uuid is carried as its text. A \<open>timestamptz\<close> is its count of microseconds since
  the epoch, which is the resolution Postgres stores. \<open>numeric\<close> is modelled by the exact
  rationals: the special values NaN and Infinity of \<open>numeric\<close>, and the rounding of a
  \<open>numeric\<close> quotient to its display scale, are outside the model.
\<close>

type_synonym uuid = string
type_synonym timestamptz = int
type_synonym numeric = rat

text \<open>A JSON document, as stored in a \<open>jsonb\<close> column and as parsed by \<open>JSON.parse\<close>.\<close>

datatype json =
    JNull
  | JBool bool
  | JNum rat
  | JStr string
  | JArr "json list"
  | JObj "(string \<times> json) list"

section \<open>The schema read by \<open>get_custom_ranked_feed\<close>\<close>

text \<open>Only the columns the function reads are kept; every one of them is \<open>not null\<close>
  in the schema except \<open>text_content\<close>, \<open>storage_path\<close> and \<open>mux_playback_id\<close>.\<close>

record posts_row =
  p_id :: uuid
  p_author_id :: uuid
  p_text_content :: "string option"
  p_created_at :: timestamptz

record likes_row =
  l_post_id :: uuid

record comments_row =
  c_post_id :: uuid

record follows_row =
  f_follower_id :: uuid
  f_followed_id :: uuid

datatype media_kind = Photo | Video

record media_row =
  m_post_id :: uuid
  m_type :: media_kind
  m_mux_playback_id :: "string option"
  m_storage_path :: "string option"
  m_created_at :: timestamptz

record user_feed_preferences_row =
  user_id :: uuid
  preferences :: json

record database =
  posts :: "posts_row list"
  likes :: "likes_row list"
  comments :: "comments_row list"
  follows :: "follows_row list"
  media :: "media_row list"
  user_feed_preferences :: "user_feed_preferences_row list"

text \<open>The rows of the common table expression \<open>joined\<close>, and the rows the function
  returns (its \<open>returns table\<close> clause).\<close>

record joined_row =
  post_id :: uuid
  author_id :: uuid
  text_content :: "string option"
  created_at :: timestamptz
  like_count :: int
  comment_count :: int
  is_from_followed :: bool
  recency_score :: numeric
  media_type :: "string option"
  mux_playback_id :: "string option"
  storage_path :: "string option"

record feed_row = joined_row +
  final_score :: numeric

text \<open>What one execution of the function takes from Postgres: the text form of a
  \<open>jsonb\<close> value that is neither a string nor null; the input function of \<open>numeric\<close>,
  where \<open>None\<close> stands for the exception \<open>invalid_text_representation\<close>; and the rank
  this execution gives a row among the rows that tie on every key of the \<open>order by\<close>,
  whose order SQL leaves to the executor. Two executions need not share it.\<close>

record postgres =
  jsonb_out :: "json \<Rightarrow> string"
  numeric_in :: "string \<Rightarrow> numeric option"
  tie_rank :: "feed_row \<Rightarrow> int"

datatype pg_error = Division_by_zero | Integer_out_of_range

section \<open>\<open>get_custom_ranked_feed\<close>\<close>

subsection \<open>Weights\<close>

record weights =
  like_weight :: numeric
  comment_weight :: numeric
  follower_weight :: numeric
  recency_weight :: numeric

text \<open>The initial values of the four variables in the \<open>declare\<close> block.\<close>

definition declared_weights :: weights where
  "declared_weights =
     \<lparr>like_weight = 1, comment_weight = 1 / 2, follower_weight = 1, recency_weight = 1\<rparr>"

text \<open>The operator \<open>->>\<close>: the field of an object as text; SQL NULL (\<open>None\<close>) when the
  left operand is not an object, the key is absent, or the value is JSON null.\<close>

definition arrow_text :: "postgres \<Rightarrow> json \<Rightarrow> string \<Rightarrow> string option" where
  "arrow_text pg j k =
     (case j of
        JObj kvs \<Rightarrow>
          (case map_of kvs k of
             None \<Rightarrow> None
           | Some JNull \<Rightarrow> None
           | Some (JStr s) \<Rightarrow> Some s
           | Some v \<Rightarrow> Some (jsonb_out pg v))
      | _ \<Rightarrow> None)"

text \<open>One block
  \<^verbatim>\<open>begin w := coalesce((prefs ->> key)::numeric, w); exception when others then null; end;\<close>
  A NULL text casts to NULL and \<open>coalesce\<close> keeps the old value; a failing cast raises,
  the handler swallows the exception and the assignment never happens.\<close>

definition assign_weight :: "postgres \<Rightarrow> json \<Rightarrow> string \<Rightarrow> numeric \<Rightarrow> numeric" where
  "assign_weight pg prefs key w =
     (case arrow_text pg prefs key of
        None \<Rightarrow> w
      | Some t \<Rightarrow> (case numeric_in pg t of None \<Rightarrow> w | Some v \<Rightarrow> v))"

text \<open>\<^verbatim>\<open>select preferences into prefs ... where user_id = requesting_user_id\<close>:
  the first matching row, NULL when there is none.\<close>

definition select_prefs :: "database \<Rightarrow> uuid \<Rightarrow> json option" where
  "select_prefs db requesting_user_id =
     map_option preferences
       (find (\<lambda>r. user_id r = requesting_user_id) (user_feed_preferences db))"

definition load_weights :: "postgres \<Rightarrow> json option \<Rightarrow> weights" where
  "load_weights pg prefs =
     (case prefs of
        None \<Rightarrow> declared_weights
      | Some j \<Rightarrow>
          \<lparr>like_weight = assign_weight pg j ''like_weight'' (like_weight declared_weights),
           comment_weight = assign_weight pg j ''comment_weight'' (comment_weight declared_weights),
           follower_weight = assign_weight pg j ''follower_weight'' (follower_weight declared_weights),
           recency_weight = assign_weight pg j ''recency_weight'' (recency_weight declared_weights)\<rparr>)"

subsection \<open>The common table expressions\<close>

fun collect :: "('e + 'a) list \<Rightarrow> 'e + 'a list" where
  "collect [] = Inr []"
| "collect (x # xs) =
     (case x of
        Inl e \<Rightarrow> Inl e
      | Inr v \<Rightarrow> (case collect xs of Inl e \<Rightarrow> Inl e | Inr vs \<Rightarrow> Inr (v # vs)))"

text \<open>\<open>count(*)::int\<close>: the cast of a \<open>bigint\<close> count raises outside the range of
  \<open>integer\<close>.\<close>

definition count_int :: "int \<Rightarrow> pg_error + int" where
  "count_int n = (if n \<le> 2147483647 then Inr n else Inl Integer_out_of_range)"

definition like_agg :: "likes_row list \<Rightarrow> pg_error + (uuid \<times> int) list" where
  "like_agg ls =
     collect (map (\<lambda>g. map_sum id (Pair g) (count_int (int (length (filter (\<lambda>l. l_post_id l = g) ls)))))
                  (remdups (map l_post_id ls)))"

definition comment_agg :: "comments_row list \<Rightarrow> pg_error + (uuid \<times> int) list" where
  "comment_agg cs =
     collect (map (\<lambda>g. map_sum id (Pair g) (count_int (int (length (filter (\<lambda>c. c_post_id c = g) cs)))))
                  (remdups (map c_post_id cs)))"

definition follow_flags :: "follows_row list \<Rightarrow> uuid \<Rightarrow> posts_row list \<Rightarrow> (uuid \<times> bool) list" where
  "follow_flags fs requesting_user_id post_base =
     map (\<lambda>b. (p_id b,
                list_ex (\<lambda>f. f_follower_id f = requesting_user_id \<and> f_followed_id f = p_author_id b) fs))
         post_base"

text \<open>The row of \<open>media_one\<close> with \<open>rn = 1\<close> for a post: the first of its media rows
  by \<open>created_at\<close> descending (rows of equal \<open>created_at\<close> stay in table order).\<close>

definition media_one :: "media_row list \<Rightarrow> uuid \<Rightarrow> media_row option" where
  "media_one ms pid =
     (case sort_key (\<lambda>m. - m_created_at m) (filter (\<lambda>m. m_post_id m = pid) ms) of
        [] \<Rightarrow> None
      | m # _ \<Rightarrow> Some m)"

definition media_type_text :: "media_kind \<Rightarrow> string" where
  "media_type_text k = (case k of Photo \<Rightarrow> ''photo'' | Video \<Rightarrow> ''video'')"

text \<open>\<open>extract(epoch from i)\<close> for an interval of \<open>us\<close> microseconds, in seconds.\<close>

definition extract_epoch :: "int \<Rightarrow> numeric" where
  "extract_epoch us = of_int us / 1000000"

text \<open>\<^verbatim>\<open>1.0 / (1.0 + extract(epoch from (now() - b.created_at)) / 3600.0)\<close>;
  a zero divisor raises \<open>division_by_zero\<close>.\<close>

definition hours_since_created :: "timestamptz \<Rightarrow> timestamptz \<Rightarrow> numeric" where
  "hours_since_created now created = extract_epoch (now - created) / 3600"

definition recency :: "timestamptz \<Rightarrow> timestamptz \<Rightarrow> pg_error + numeric" where
  "recency now created =
     (let d = 1 + hours_since_created now created
      in if d = 0 then Inl Division_by_zero else Inr (1 / d))"

text \<open>\<open>posts.id\<close> is the primary key and each of \<open>like_agg\<close>, \<open>comment_agg\<close>,
  \<open>follow_flags\<close> and \<open>media_one\<close> (at \<open>rn = 1\<close>) has one row per post id, so every left
  join is a lookup by the post id and \<open>coalesce\<close> fills the missing match.\<close>

definition join_row ::
  "(uuid \<times> int) list \<Rightarrow> (uuid \<times> int) list \<Rightarrow> (uuid \<times> bool) list \<Rightarrow> media_row list \<Rightarrow>
   timestamptz \<Rightarrow> posts_row \<Rightarrow> pg_error + joined_row" where
  "join_row la ca ff ms now b =
     (case recency now (p_created_at b) of
        Inl e \<Rightarrow> Inl e
      | Inr r \<Rightarrow>
          Inr \<lparr>post_id = p_id b,
               author_id = p_author_id b,
               text_content = p_text_content b,
               created_at = p_created_at b,
               like_count = (case map_of la (p_id b) of None \<Rightarrow> 0 | Some n \<Rightarrow> n),
               comment_count = (case map_of ca (p_id b) of None \<Rightarrow> 0 | Some n \<Rightarrow> n),
               is_from_followed = (case map_of ff (p_id b) of None \<Rightarrow> False | Some v \<Rightarrow> v),
               recency_score = r,
               media_type = map_option (\<lambda>m. media_type_text (m_type m)) (media_one ms (p_id b)),
               mux_playback_id = Option.bind (media_one ms (p_id b)) m_mux_playback_id,
               storage_path = Option.bind (media_one ms (p_id b)) m_storage_path\<rparr>)"

definition joined :: "database \<Rightarrow> timestamptz \<Rightarrow> uuid \<Rightarrow> pg_error + joined_row list" where
  "joined db now requesting_user_id =
     (case like_agg (likes db) of
        Inl e \<Rightarrow> Inl e
      | Inr la \<Rightarrow>
          (case comment_agg (comments db) of
             Inl e \<Rightarrow> Inl e
           | Inr ca \<Rightarrow>
               collect (map (join_row la ca (follow_flags (follows db) requesting_user_id (posts db))
                                      (media db) now)
                            (posts db))))"

subsection \<open>The final select\<close>

definition score :: "weights \<Rightarrow> joined_row \<Rightarrow> numeric" where
  "score w j =
     like_weight w * of_int (like_count j)
     + comment_weight w * of_int (comment_count j)
     + follower_weight w * (if is_from_followed j then 1 else 0)
     + recency_weight w * recency_score j"

definition select_row :: "weights \<Rightarrow> joined_row \<Rightarrow> feed_row" where
  "select_row w j = joined_row.extend j (feed_row.fields (score w j))"

text \<open>\<^verbatim>\<open>order by final_score desc nulls last, j.created_at desc\<close>. No score is NULL
  here. Rows equal in both keys come in the order this execution ranks them
  (\<open>tie_rank\<close>).\<close>

definition order_by :: "postgres \<Rightarrow> feed_row list \<Rightarrow> feed_row list" where
  "order_by pg rows = sort_key (\<lambda>r. (- final_score r, - created_at r, tie_rank pg r)) rows"

text \<open>\<open>greatest(x, 0)\<close>, which ignores a NULL argument.\<close>

definition greatest_0 :: "int option \<Rightarrow> int" where
  "greatest_0 x = (case x of None \<Rightarrow> 0 | Some v \<Rightarrow> max v 0)"

text \<open>The query before \<open>limit\<close> and \<open>offset\<close>: the full ordering.\<close>

definition ranked :: "postgres \<Rightarrow> database \<Rightarrow> timestamptz \<Rightarrow> uuid \<Rightarrow> pg_error + feed_row list" where
  "ranked pg db now requesting_user_id =
     (let w = load_weights pg (select_prefs db requesting_user_id)
      in case joined db now requesting_user_id of
           Inl e \<Rightarrow> Inl e
         | Inr js \<Rightarrow> Inr (order_by pg (map (select_row w) js)))"

definition get_custom_ranked_feed ::
  "postgres \<Rightarrow> database \<Rightarrow> timestamptz \<Rightarrow> uuid \<Rightarrow> int option \<Rightarrow> int option \<Rightarrow>
   pg_error + feed_row list" where
  "get_custom_ranked_feed pg db now requesting_user_id p_limit p_offset =
     (case ranked pg db now requesting_user_id of
        Inl e \<Rightarrow> Inl e
      | Inr rows \<Rightarrow>
          Inr (take (nat (greatest_0 p_limit)) (drop (nat (greatest_0 p_offset)) rows)))"

section \<open>The edge function \<open>get-feed\<close>\<close>

text \<open>
  The handler is modelled from its first statement on, for a client that is configured.
  A JavaScript number is an exact rational or NaN: the rounding of doubles and the
  infinities are outside the model. Strings hold ASCII.
\<close>

datatype jsnum = NaN | Num rat

definition Math_max :: "jsnum \<Rightarrow> jsnum \<Rightarrow> jsnum" where
  "Math_max a b =
     (case a of NaN \<Rightarrow> NaN | Num x \<Rightarrow> (case b of NaN \<Rightarrow> NaN | Num y \<Rightarrow> Num (max x y)))"

definition js_plus :: "jsnum \<Rightarrow> jsnum \<Rightarrow> jsnum" where
  "js_plus a b =
     (case a of NaN \<Rightarrow> NaN | Num x \<Rightarrow> (case b of NaN \<Rightarrow> NaN | Num y \<Rightarrow> Num (x + y)))"

definition js_minus :: "jsnum \<Rightarrow> jsnum \<Rightarrow> jsnum" where
  "js_minus a b =
     (case a of NaN \<Rightarrow> NaN | Num x \<Rightarrow> (case b of NaN \<Rightarrow> NaN | Num y \<Rightarrow> Num (x - y)))"

subsection \<open>\<open>parseInt(s, 10)\<close>\<close>

definition is_white_space :: "char \<Rightarrow> bool" where
  "is_white_space c = (of_char c \<in> {9, 10, 11, 12, 13, 32 :: nat})"

definition is_digit :: "char \<Rightarrow> bool" where
  "is_digit c = (48 \<le> (of_char c :: nat) \<and> (of_char c :: nat) \<le> 57)"

definition digits_value :: "string \<Rightarrow> int" where
  "digits_value ds = foldl (\<lambda>a c. 10 * a + (of_char c - 48)) 0 ds"

text \<open>Leading white space is skipped, one sign is read, then the longest run of decimal
  digits; what follows the digits is ignored, and no digit at all gives NaN.\<close>

definition parseInt :: "string \<Rightarrow> jsnum" where
  "parseInt s =
     (let t = dropWhile is_white_space s;
          neg = (t \<noteq> [] \<and> hd t = CHR ''-'');
          u = (if t \<noteq> [] \<and> (hd t = CHR ''-'' \<or> hd t = CHR ''+'') then tl t else t);
          ds = takeWhile is_digit u
      in if ds = [] then NaN
         else Num (of_int (if neg then - digits_value ds else digits_value ds)))"

subsection \<open>Reading JSON values\<close>

text \<open>\<open>v[k]\<close> for a key that no prototype defines (\<open>limit\<close>, \<open>offset\<close>,
  \<open>algorithm_id\<close>, \<open>third_party_endpoint\<close>): the member of an object, \<open>undefined\<close>
  (\<open>None\<close>) on anything else.\<close>

definition get_property :: "json \<Rightarrow> string \<Rightarrow> json option" where
  "get_property v k = (case v of JObj kvs \<Rightarrow> map_of kvs k | _ \<Rightarrow> None)"

text \<open>The operator \<open>??\<close>: the right operand replaces \<open>undefined\<close> and \<open>null\<close> only.\<close>

definition nullish_or :: "json option \<Rightarrow> json \<Rightarrow> json" where
  "nullish_or v d = (case v of None \<Rightarrow> d | Some JNull \<Rightarrow> d | Some w \<Rightarrow> w)"

definition falsy :: "json \<Rightarrow> bool" where
  "falsy v =
     (case v of
        JNull \<Rightarrow> True
      | JBool b \<Rightarrow> \<not> b
      | JNum x \<Rightarrow> x = 0
      | JStr s \<Rightarrow> s = []
      | JArr _ \<Rightarrow> False
      | JObj _ \<Rightarrow> False)"

fun join_with_comma :: "string list \<Rightarrow> string" where
  "join_with_comma [] = []"
| "join_with_comma [x] = x"
| "join_with_comma (x # y # zs) = x @ '','' @ join_with_comma (y # zs)"

text \<open>\<open>String(v)\<close>, which is also the property key \<open>v\<close> stands for. The text of a
  number is left to the engine (\<open>nts\<close>). An object is taken to have no member of its own
  named \<open>toString\<close>, so that the inherited one answers; with such a member, which JSON can
  only give a value that is not callable, the conversion throws a \<open>TypeError\<close>, also when
  the object is an element of an array, and that case is not modelled.\<close>

fun to_string :: "(rat \<Rightarrow> string) \<Rightarrow> json \<Rightarrow> string" where
  "to_string nts JNull = ''null''"
| "to_string nts (JBool b) = (if b then ''true'' else ''false'')"
| "to_string nts (JNum x) = nts x"
| "to_string nts (JStr s) = s"
| "to_string nts (JArr vs) =
     join_with_comma (map (\<lambda>v. if v = JNull then [] else to_string nts v) vs)"
| "to_string nts (JObj kvs) = ''[object Object]''"

subsection \<open>Request, environment, response\<close>

text \<open>\<open>query_limit\<close> and \<open>query_offset\<close> are \<open>url.searchParams.get\<close> of the two names
  (\<open>None\<close> for \<open>null\<close>); \<open>req_json\<close> is the JSON body the request carries, \<open>None\<close>
  when \<open>req.json()\<close> rejects (no body, or not JSON).\<close>

record request =
  req_method :: string
  query_limit :: "string option"
  query_offset :: "string option"
  req_json :: "json option"
  authorization :: "string option"

datatype pref_read = Read_failed string | No_row | Row json

record outbound =
  url :: string
  param_user_id :: uuid
  param_limit :: jsnum
  param_offset :: jsnum
  header_authorization :: string

datatype fetch_result = Network_error | Reply nat "json option"

text \<open>What the handler calls outside itself. \<open>getUser\<close> is \<open>auth.getUser()\<close> under
  the given Authorization header (\<open>None\<close>: an error or no user); \<open>rpc\<close> is the remote
  call of \<open>get_custom_ranked_feed\<close> (an error message, or the data, which may be null);
  \<open>posts_table\<close> is what a select on \<open>posts\<close> reads (or the error message);
  \<open>malformed_range\<close> is the answer to a range whose bounds are not whole numbers;
  \<open>url_parses\<close> tells whether \<open>new URL\<close> accepts a string; a \<open>Reply\<close> of \<open>fetch\<close>
  carries the status and the parsed body (\<open>None\<close>: \<open>resp.json()\<close> rejects);
  \<open>proto_accessor\<close> tells whether the engine keeps \<open>Object.prototype.__proto__\<close>.\<close>

record environment =
  getUser :: "string \<Rightarrow> uuid option"
  read_preferences :: "uuid \<Rightarrow> pref_read"
  rpc :: "uuid \<Rightarrow> jsnum \<Rightarrow> jsnum \<Rightarrow> string + json option"
  posts_table :: "string + posts_row list"
  malformed_range :: "string + posts_row list"
  url_parses :: "string \<Rightarrow> bool"
  fetch :: "outbound \<Rightarrow> fetch_result"
  number_to_string :: "rat \<Rightarrow> string"
  proto_accessor :: bool

datatype strategy = Custom | Third_party | Chronological

definition strategy_name :: "strategy \<Rightarrow> string" where
  "strategy_name s =
     (case s of Custom \<Rightarrow> ''custom'' | Third_party \<Rightarrow> ''third_party''
      | Chronological \<Rightarrow> ''chronological'')"

datatype payload = Data json | Rows "posts_row list"

datatype body =
    Posts payload string
  | Error string
  | Error_details string string
  | Error_status string nat

record response =
  status :: nat
  body :: body

text \<open>The function \<open>json(body, status = 200)\<close>.\<close>

definition json_response :: "body \<Rightarrow> nat \<Rightarrow> response" where
  "json_response b st = \<lparr>status = st, body = b\<rparr>"

datatype event = Console_error string | Invoke strategy | Fetch outbound

text \<open>The network calls and the strategies a trace of events holds, in order.\<close>

fun fetches :: "event list \<Rightarrow> outbound list" where
  "fetches [] = []"
| "fetches (Fetch out # evs) = out # fetches evs"
| "fetches (_ # evs) = fetches evs"

fun invoked :: "event list \<Rightarrow> strategy list" where
  "invoked [] = []"
| "invoked (Invoke s # evs) = s # invoked evs"
| "invoked (_ # evs) = invoked evs"

text \<open>What the handler resolves with: a response, or a value that is no response.\<close>

datatype outcome = Responded response | Returned json

subsection \<open>The page window (lines 25 to 37)\<close>

definition window :: "request \<Rightarrow> jsnum \<times> jsnum" where
  "window req =
     (let limit = Math_max (parseInt (case query_limit req of None \<Rightarrow> ''20'' | Some s \<Rightarrow> s)) (Num 0);
          offset = Math_max (parseInt (case query_offset req of None \<Rightarrow> ''0'' | Some s \<Rightarrow> s)) (Num 0)
      in if req_method req \<noteq> ''GET'' then
           (case req_json req of
              None \<Rightarrow> (limit, offset)
            | Some b \<Rightarrow>
                ((case get_property b ''limit'' of
                    Some (JNum x) \<Rightarrow> Math_max (Num x) (Num 0)
                  | _ \<Rightarrow> limit),
                 (case get_property b ''offset'' of
                    Some (JNum x) \<Rightarrow> Math_max (Num x) (Num 0)
                  | _ \<Rightarrow> offset)))
         else (limit, offset))"

subsection \<open>Preferences (lines 56 to 67)\<close>

text \<open>On an error the data is null; the error is logged and nothing else is done with
  it. A missing row and a null \<open>preferences\<close> both give the empty object.\<close>

definition preferences_of :: "pref_read \<Rightarrow> json \<times> event list" where
  "preferences_of r =
     (case r of
        Read_failed e \<Rightarrow> (JObj [], [Console_error ''preferences error''])
      | No_row \<Rightarrow> (JObj [], [])
      | Row j \<Rightarrow> (if j = JNull then JObj [] else j, []))"

definition algorithm_id_of :: "json \<Rightarrow> json" where
  "algorithm_id_of prefs = nullish_or (get_property prefs ''algorithm_id'') (JStr ''chronological'')"

subsection \<open>The strategies (lines 70 to 121)\<close>

definition custom_strategy :: "environment \<Rightarrow> uuid \<Rightarrow> jsnum \<Rightarrow> jsnum \<Rightarrow> response \<times> event list" where
  "custom_strategy env userId limit offset =
     (case rpc env userId limit offset of
        Inl msg \<Rightarrow> (json_response (Error_details ''ranking_failed'' msg) 500, [Console_error ''rpc error''])
      | Inr d \<Rightarrow>
          (json_response (Posts (Data (case d of None \<Rightarrow> JArr [] | Some v \<Rightarrow> v)) ''custom'') 200, []))"

text \<open>\<^verbatim>\<open>(preferences["third_party_endpoint"] as string) ?? ""\<close>, and the call the
  strategy issues: the endpoint as a URL, with the user and the window as its query
  parameters and the Authorization header of the caller.\<close>

definition endpoint_of :: "json \<Rightarrow> json" where
  "endpoint_of prefs = nullish_or (get_property prefs ''third_party_endpoint'') (JStr [])"

definition outbound_call ::
  "environment \<Rightarrow> json \<Rightarrow> uuid \<Rightarrow> string \<Rightarrow> jsnum \<Rightarrow> jsnum \<Rightarrow> outbound" where
  "outbound_call env prefs userId authHeader limit offset =
     \<lparr>url = to_string (number_to_string env) (endpoint_of prefs), param_user_id = userId,
      param_limit = limit, param_offset = offset, header_authorization = authHeader\<rparr>"

definition third_party_strategy ::
  "environment \<Rightarrow> json \<Rightarrow> uuid \<Rightarrow> string \<Rightarrow> jsnum \<Rightarrow> jsnum \<Rightarrow> response \<times> event list" where
  "third_party_strategy env prefs userId authHeader limit offset =
     (if falsy (endpoint_of prefs) then
        (json_response (Error ''missing_third_party_endpoint'') 400, [])
      else if \<not> url_parses env (to_string (number_to_string env) (endpoint_of prefs)) then
        (json_response (Error ''third_party_exception'') 500,
         [Console_error ''third_party exception''])
      else
        (let out = outbound_call env prefs userId authHeader limit offset
         in case fetch env out of
              Network_error \<Rightarrow>
                (json_response (Error ''third_party_exception'') 500,
                 [Fetch out, Console_error ''third_party exception''])
            | Reply st b \<Rightarrow>
                if \<not> (200 \<le> st \<and> st \<le> 299) then
                  (json_response (Error_status ''third_party_failed'' st) 502, [Fetch out])
                else
                  (case b of
                     None \<Rightarrow>
                       (json_response (Error ''third_party_exception'') 500,
                        [Fetch out, Console_error ''third_party exception''])
                   | Some d \<Rightarrow>
                       (json_response (Posts (Data d) ''third_party'') 200, [Fetch out]))))"

text \<open>A bound of a range that is a whole number, not negative.\<close>

definition row_index :: "jsnum \<Rightarrow> nat option" where
  "row_index n =
     (case n of
        NaN \<Rightarrow> None
      | Num q \<Rightarrow> if 0 \<le> q \<and> q = of_int \<lfloor>q\<rfloor> then Some (nat \<lfloor>q\<rfloor>) else None)"

text \<open>\<^verbatim>\<open>.order("created_at", { ascending: false }).range(from, to)\<close>: the rows from
  \<open>from\<close> to \<open>to\<close>, both included, of the table by \<open>created_at\<close> descending.\<close>

definition select_posts :: "environment \<Rightarrow> jsnum \<Rightarrow> jsnum \<Rightarrow> string + posts_row list" where
  "select_posts env from to =
     (case (row_index from, row_index to) of
        (Some f, Some t) \<Rightarrow>
          (case posts_table env of
             Inl msg \<Rightarrow> Inl msg
           | Inr ps \<Rightarrow> Inr (take (Suc t - f) (drop f (sort_key (\<lambda>p. - p_created_at p) ps))))
      | _ \<Rightarrow> malformed_range env)"

definition chronological_strategy :: "environment \<Rightarrow> jsnum \<Rightarrow> jsnum \<Rightarrow> response \<times> event list" where
  "chronological_strategy env limit offset =
     (case select_posts env offset (Math_max (js_minus (js_plus offset limit) (Num 1)) offset) of
        Inl msg \<Rightarrow>
          (json_response (Error_details ''chronological_failed'' msg) 500,
           [Console_error ''chronological error''])
      | Inr rows \<Rightarrow> (json_response (Posts (Rows rows) ''chronological'') 200, []))"

definition run_strategy ::
  "environment \<Rightarrow> json \<Rightarrow> uuid \<Rightarrow> string \<Rightarrow> jsnum \<Rightarrow> jsnum \<Rightarrow> strategy \<Rightarrow> response \<times> event list" where
  "run_strategy env prefs userId authHeader limit offset s =
     (let (r, evs) =
            (case s of
               Custom \<Rightarrow> custom_strategy env userId limit offset
             | Third_party \<Rightarrow> third_party_strategy env prefs userId authHeader limit offset
             | Chronological \<Rightarrow> chronological_strategy env limit offset)
      in (r, Invoke s # evs))"

subsection \<open>The dispatch (lines 123 and 124)\<close>

text \<open>\<open>strategies\<close> is an object literal: besides its three own members, a key finds
  what \<open>Object.prototype\<close> defines.\<close>

datatype slot = Own strategy | Inherited string

definition object_prototype_functions :: "string list" where
  "object_prototype_functions =
     [''constructor'', ''hasOwnProperty'', ''isPrototypeOf'', ''propertyIsEnumerable'',
      ''toLocaleString'', ''toString'', ''valueOf'', ''__defineGetter__'', ''__defineSetter__'',
      ''__lookupGetter__'', ''__lookupSetter__'']"

definition strategies :: "environment \<Rightarrow> string \<Rightarrow> slot option" where
  "strategies env k =
     (if k = ''custom'' then Some (Own Custom)
      else if k = ''third_party'' then Some (Own Third_party)
      else if k = ''chronological'' then Some (Own Chronological)
      else if k \<in> set object_prototype_functions then Some (Inherited k)
      else if k = ''__proto__'' \<and> proto_accessor env then Some (Inherited k)
      else None)"

text \<open>\<open>strategies[algorithmId] ?? strategies["chronological"]\<close>\<close>

definition exec :: "environment \<Rightarrow> json \<Rightarrow> slot" where
  "exec env algorithmId =
     (case strategies env (to_string (number_to_string env) algorithmId) of
        None \<Rightarrow> Own Chronological
      | Some f \<Rightarrow> f)"

text \<open>\<open>await exec()\<close> where \<open>exec\<close> is inherited: a call with no receiver and no
  argument. \<open>Object()\<close> makes an empty object, \<open>toString\<close> names the missing receiver,
  \<open>isPrototypeOf\<close> answers false; every other one throws a TypeError (\<open>__proto__\<close> is no
  function), which the outer \<open>catch\<close> logs and turns into the status 500.\<close>

definition call_inherited :: "string \<Rightarrow> outcome \<times> event list" where
  "call_inherited k =
     (if k = ''constructor'' then (Returned (JObj []), [])
      else if k = ''toString'' then (Returned (JStr ''[object Undefined]''), [])
      else if k = ''isPrototypeOf'' then (Returned (JBool False), [])
      else (Responded (json_response (Error ''internal_server_error'') 500),
            [Console_error ''TypeError'']))"

subsection \<open>The handler\<close>

definition serve_handler :: "environment \<Rightarrow> request \<Rightarrow> outcome \<times> event list" where
  "serve_handler env req =
     (let (limit, offset) = window req;
          authHeader = (case authorization req of None \<Rightarrow> [] | Some h \<Rightarrow> h)
      in case getUser env authHeader of
           None \<Rightarrow> (Responded (json_response (Error ''Unauthorized'') 401), [])
         | Some userId \<Rightarrow>
             (let (prefs, evs) = preferences_of (read_preferences env userId)
              in case exec env (algorithm_id_of prefs) of
                   Own s \<Rightarrow>
                     (let (r, evs') = run_strategy env prefs userId authHeader limit offset s
                      in (Responded r, evs @ evs'))
                 | Inherited k \<Rightarrow>
                     (let (r, evs') = call_inherited k in (r, evs @ evs'))))"

section \<open>Concrete inputs\<close>

text \<open>A Postgres whose \<open>numeric\<close> input accepts the two texts below and nothing else,
  and which leaves tied rows in table order; it stands in wherever a concrete instance is
  needed. A second one ranks tied rows by their post id, last id first.\<close>

definition sample_pg :: postgres where
  "sample_pg =
     \<lparr>jsonb_out = (\<lambda>v. case v of JNum x \<Rightarrow> (if x = 2 then ''2'' else ''3'') | _ \<Rightarrow> ''true''),
      numeric_in = (\<lambda>s. if s = ''2'' then Some 2 else if s = ''0.25'' then Some (1 / 4) else None),
      tie_rank = (\<lambda>_. 0)\<rparr>"

text \<open>A tie order other than the sample one: among tied rows, the one whose id ends in the
  greater character comes first.\<close>

definition last_id_first :: "feed_row \<Rightarrow> int" where
  "last_id_first r = - int (of_char (last (post_id r)))"

text \<open>Two posts that tie on both keys of the \<open>order by\<close>: neither has a like, a comment
  or a followed author, and both are created at the same microsecond.\<close>

definition tied_db :: database where
  "tied_db =
     \<lparr>posts = [\<lparr>p_id = ''T1'', p_author_id = ''ann'', p_text_content = None, p_created_at = 0\<rparr>,
               \<lparr>p_id = ''T2'', p_author_id = ''bob'', p_text_content = None, p_created_at = 0\<rparr>],
      likes = [], comments = [], follows = [], media = [], user_feed_preferences = []\<rparr>"

text \<open>The scenario of two posts: P1 is one hour old, has three likes and no comment, and
  its author is not followed; P2 is created at the instant of evaluation, has one like
  and no comment, and its author is followed. The requester has no preference record.\<close>

definition scenario_now :: timestamptz where
  "scenario_now = 3600000000"

definition scenario_db :: database where
  "scenario_db =
     \<lparr>posts = [\<lparr>p_id = ''P2'', p_author_id = ''bob'', p_text_content = None,
                 p_created_at = 3600000000\<rparr>,
               \<lparr>p_id = ''P1'', p_author_id = ''ann'', p_text_content = Some ''hello'',
                 p_created_at = 0\<rparr>],
      likes = [\<lparr>l_post_id = ''P1''\<rparr>, \<lparr>l_post_id = ''P2''\<rparr>, \<lparr>l_post_id = ''P1''\<rparr>,
               \<lparr>l_post_id = ''P1''\<rparr>],
      comments = [],
      follows = [\<lparr>f_follower_id = ''requester'', f_followed_id = ''bob''\<rparr>],
      media = [],
      user_feed_preferences = []\<rparr>"

definition scenario_rows :: "feed_row list" where
  "scenario_rows =
     [\<lparr>post_id = ''P1'', author_id = ''ann'', text_content = Some ''hello'', created_at = 0,
       like_count = 3, comment_count = 0, is_from_followed = False, recency_score = 1 / 2,
       media_type = None, mux_playback_id = None, storage_path = None, final_score = 7 / 2\<rparr>,
      \<lparr>post_id = ''P2'', author_id = ''bob'', text_content = None, created_at = 3600000000,
       like_count = 1, comment_count = 0, is_from_followed = True, recency_score = 1,
       media_type = None, mux_playback_id = None, storage_path = None, final_score = 3\<rparr>]"

text \<open>Eleven posts read at two instants, 36 milliseconds apart. Nine posts are by an author
  the requester follows; A is a million hours older than B and has one comment; B turns
  one hour old at the second instant.\<close>

definition drift_db :: database where
  "drift_db =
     \<lparr>posts = [\<lparr>p_id = ''A'', p_author_id = ''ann'', p_text_content = None,
                 p_created_at = - 3600000000000000\<rparr>,
               \<lparr>p_id = ''B'', p_author_id = ''bob'', p_text_content = None, p_created_at = 0\<rparr>,
               \<lparr>p_id = ''S1'', p_author_id = ''star'', p_text_content = None, p_created_at = - 9\<rparr>,
               \<lparr>p_id = ''S2'', p_author_id = ''star'', p_text_content = None, p_created_at = - 8\<rparr>,
               \<lparr>p_id = ''S3'', p_author_id = ''star'', p_text_content = None, p_created_at = - 7\<rparr>,
               \<lparr>p_id = ''S4'', p_author_id = ''star'', p_text_content = None, p_created_at = - 6\<rparr>,
               \<lparr>p_id = ''S5'', p_author_id = ''star'', p_text_content = None, p_created_at = - 5\<rparr>,
               \<lparr>p_id = ''S6'', p_author_id = ''star'', p_text_content = None, p_created_at = - 4\<rparr>,
               \<lparr>p_id = ''S7'', p_author_id = ''star'', p_text_content = None, p_created_at = - 3\<rparr>,
               \<lparr>p_id = ''S8'', p_author_id = ''star'', p_text_content = None, p_created_at = - 2\<rparr>,
               \<lparr>p_id = ''S9'', p_author_id = ''star'', p_text_content = None, p_created_at = - 1\<rparr>],
      likes = [],
      comments = [\<lparr>c_post_id = ''A''\<rparr>],
      follows = [\<lparr>f_follower_id = ''requester'', f_followed_id = ''star''\<rparr>],
      media = [],
      user_feed_preferences = []\<rparr>"

definition first_fetch :: timestamptz where
  "first_fetch = 3599964000"

definition second_fetch :: timestamptz where
  "second_fetch = 3600000000"

text \<open>The scenario once more, with a preference record for the requester: the like weight
  and the recency weight are not numbers, the comment weight is the text of one and the
  follower weight is a number. A second record has it the other way round.\<close>

definition stored_prefs :: json where
  "stored_prefs =
     JObj [(''algorithm_id'', JStr ''custom''), (''like_weight'', JStr ''heavy''),
           (''comment_weight'', JStr ''0.25''), (''follower_weight'', JNum 2),
           (''recency_weight'', JStr ''soon'')]"

definition other_prefs :: json where
  "other_prefs =
     JObj [(''like_weight'', JNum 2), (''comment_weight'', JBool True),
           (''follower_weight'', JStr []), (''recency_weight'', JStr ''0.25'')]"

definition prefs_db :: database where
  "prefs_db =
     scenario_db\<lparr>user_feed_preferences := [\<lparr>user_id = ''requester'', preferences = stored_prefs\<rparr>]\<rparr>"

text \<open>An environment for the handler: one bearer token is known, the requester has no
  preference record, and \<open>posts\<close> holds the two posts of the scenario.\<close>

definition sample_env :: environment where
  "sample_env =
     \<lparr>getUser = (\<lambda>h. if h = ''Bearer token'' then Some ''requester'' else None),
      read_preferences = (\<lambda>_. No_row),
      rpc = (\<lambda>_ _ _. Inr None),
      posts_table = Inr (posts scenario_db),
      malformed_range = Inl ''range'',
      url_parses = (\<lambda>s. take 8 s = ''https://''),
      fetch = (\<lambda>_. Network_error),
      number_to_string = (\<lambda>_. ''0''),
      proto_accessor = False\<rparr>"

definition sample_request :: request where
  "sample_request =
     \<lparr>req_method = ''POST'', query_limit = None, query_offset = None, req_json = None,
      authorization = Some ''Bearer token''\<rparr>"

text \<open>Requests and preference records for the handler.\<close>

definition get_with_body :: request where
  "get_with_body =
     \<lparr>req_method = ''GET'', query_limit = None, query_offset = None,
      req_json = Some (JObj [(''limit'', JNum 5), (''offset'', JNum 7)]),
      authorization = Some ''Bearer token''\<rparr>"

definition post_with_body :: request where
  "post_with_body =
     \<lparr>req_method = ''POST'', query_limit = Some ''3'', query_offset = Some ''4'',
      req_json = Some (JObj [(''limit'', JNum 5), (''offset'', JNum (- 7))]),
      authorization = Some ''Bearer token''\<rparr>"

definition get_with_query :: "string \<Rightarrow> string \<Rightarrow> request" where
  "get_with_query l off =
     \<lparr>req_method = ''GET'', query_limit = Some l, query_offset = Some off, req_json = None,
      authorization = Some ''Bearer token''\<rparr>"

definition prefs_with_algorithm :: "string \<Rightarrow> json" where
  "prefs_with_algorithm a = JObj [(''algorithm_id'', JStr a)]"

definition prefs_third_party :: "string \<Rightarrow> json" where
  "prefs_third_party endpoint =
     JObj [(''algorithm_id'', JStr ''third_party''), (''third_party_endpoint'', JStr endpoint)]"

text \<open>An upstream that answers every call with the same two items.\<close>

definition two_items :: json where
  "two_items = JArr [JStr ''first'', JStr ''second'']"

definition generous_upstream :: environment where
  "generous_upstream =
     sample_env\<lparr>read_preferences := (\<lambda>_. Row (prefs_third_party ''https://ranker.example/feed'')),
                fetch := (\<lambda>_. Reply 200 (Some two_items))\<rparr>"

definition with_preferences :: "json \<Rightarrow> environment" where
  "with_preferences j = sample_env\<lparr>read_preferences := (\<lambda>_. Row j)\<rparr>"

text \<open>An upstream that answers every call with the status 503.\<close>

definition failing_upstream :: environment where
  "failing_upstream =
     sample_env\<lparr>read_preferences := (\<lambda>_. Row (prefs_third_party ''https://ranker.example/feed'')),
                fetch := (\<lambda>_. Reply 503 None)\<rparr>"

section \<open>Facts about the ranking function\<close>

lemma collect_list_all2:
  "collect (map f xs) = Inr ys \<Longrightarrow> list_all2 (\<lambda>x y. f x = Inr y) xs ys"
proof (induction xs arbitrary: ys)
  case Nil
  then show ?case by simp
next
  case (Cons x xs)
  then show ?case by (auto split: sum.splits)
qed

lemma collect_total:
  "(\<And>x. x \<in> set xs \<Longrightarrow> \<exists>y. f x = Inr y) \<Longrightarrow> \<exists>ys. collect (map f xs) = Inr ys"
proof (induction xs)
  case Nil
  then show ?case by simp
next
  case (Cons x xs)
  then obtain y where y: "f x = Inr y" by auto
  from Cons obtain ys where "collect (map f xs) = Inr ys" by auto
  with y show ?case by simp
qed

lemma join_row_Inr:
  assumes "join_row la ca ff ms now b = Inr j"
  shows "post_id j = p_id b" and "created_at j = p_created_at b"
    and "recency now (p_created_at b) = Inr (recency_score j)"
  using assms by (auto simp: join_row_def split: sum.splits)

lemma joined_rows:
  assumes "joined db now u = Inr js"
  shows "map post_id js = map p_id (posts db)"
    and "map created_at js = map p_created_at (posts db)"
    and "\<forall>j\<in>set js. recency now (created_at j) = Inr (recency_score j)"
proof -
  from assms obtain la ca ff where
    "collect (map (join_row la ca ff (media db) now) (posts db)) = Inr js"
    by (auto simp: joined_def split: sum.splits)
  then have rel: "list_all2 (\<lambda>b j. join_row la ca ff (media db) now b = Inr j) (posts db) js"
    by (rule collect_list_all2)
  then have "list_all2 (\<lambda>b j. post_id j = p_id b \<and> created_at j = p_created_at b
       \<and> recency now (created_at j) = Inr (recency_score j)) (posts db) js"
    by (rule list_all2_mono) (simp add: join_row_Inr)
  then show "map post_id js = map p_id (posts db)"
    and "map created_at js = map p_created_at (posts db)"
    and "\<forall>j\<in>set js. recency now (created_at j) = Inr (recency_score j)"
    by (induction rule: list_all2_induct) auto
qed

lemma select_row_fields [simp]:
  "post_id (select_row w j) = post_id j"
  "created_at (select_row w j) = created_at j"
  "like_count (select_row w j) = like_count j"
  "comment_count (select_row w j) = comment_count j"
  "is_from_followed (select_row w j) = is_from_followed j"
  "recency_score (select_row w j) = recency_score j"
  "final_score (select_row w j) = score w j"
  by (simp_all add: select_row_def joined_row.extend_def feed_row.fields_def)

lemma ranked_rows:
  assumes "ranked pg db now u = Inr full"
  obtains js where "joined db now u = Inr js"
    and "full = order_by pg (map (select_row (load_weights pg (select_prefs db u))) js)"
  using assms by (auto simp: ranked_def Let_def split: sum.splits)

lemma mset_order_by: "mset (order_by pg rows) = mset rows"
  by (simp add: order_by_def)

lemma set_order_by: "set (order_by pg rows) = set rows"
  by (simp add: order_by_def)

lemma sorted_order_by:
  "sorted_wrt (\<lambda>r s. final_score s < final_score r
      \<or> (final_score r = final_score s \<and> created_at s \<le> created_at r)) (order_by pg rows)"
proof -
  have "sorted (map (\<lambda>r. (- final_score r, - created_at r, tie_rank pg r)) (order_by pg rows))"
    unfolding order_by_def by (rule sorted_sort_key)
  then have "sorted_wrt (\<lambda>r s. (- final_score r, - created_at r, tie_rank pg r)
        \<le> (- final_score s, - created_at s, tie_rank pg s)) (order_by pg rows)"
    by (simp add: sorted_map)
  then show ?thesis
    by (rule sorted_wrt_mono_rel [rotated]) auto
qed

lemma hours_nonneg: "created \<le> now \<Longrightarrow> 0 \<le> hours_since_created now created"
  by (simp add: hours_since_created_def extract_epoch_def)

lemma hours_zero_iff: "hours_since_created now created = 0 \<longleftrightarrow> created = now"
  by (auto simp: hours_since_created_def extract_epoch_def)

lemma hours_strict_mono:
  "older < created \<Longrightarrow> hours_since_created now created < hours_since_created now older"
  by (simp add: hours_since_created_def extract_epoch_def divide_strict_right_mono)

lemma recency_of_past:
  assumes "created \<le> now"
  shows "recency now created = Inr (1 / (1 + hours_since_created now created))"
  using hours_nonneg [OF assms] by (simp add: recency_def Let_def)

lemma get_rows_subset:
  assumes "get_custom_ranked_feed pg db now u l off = Inr rows"
  obtains full where "ranked pg db now u = Inr full" and "set rows \<subseteq> set full"
    and "rows = take (nat (greatest_0 l)) (drop (nat (greatest_0 off)) full)"
proof -
  from assms obtain full where f: "ranked pg db now u = Inr full"
    and r: "rows = take (nat (greatest_0 l)) (drop (nat (greatest_0 off)) full)"
    by (auto simp: get_custom_ranked_feed_def split: sum.splits)
  have "set rows \<subseteq> set full"
    unfolding r by (meson set_take_subset set_drop_subset subset_trans)
  with f r show ?thesis using that by blast
qed

lemma ranked_row_facts:
  assumes "ranked pg db now u = Inr full" and "r \<in> set full"
  shows "recency now (created_at r) = Inr (recency_score r)"
    and "final_score r =
      like_weight (load_weights pg (select_prefs db u)) * of_int (like_count r)
      + comment_weight (load_weights pg (select_prefs db u)) * of_int (comment_count r)
      + follower_weight (load_weights pg (select_prefs db u)) * (if is_from_followed r then 1 else 0)
      + recency_weight (load_weights pg (select_prefs db u)) * recency_score r"
proof -
  from assms(1) obtain js where js: "joined db now u = Inr js"
    and full: "full = order_by pg (map (select_row (load_weights pg (select_prefs db u))) js)"
    by (rule ranked_rows)
  from assms(2) full obtain j where j: "j \<in> set js"
    and r: "r = select_row (load_weights pg (select_prefs db u)) j"
    by (auto simp: set_order_by)
  from joined_rows(3) [OF js] j show "recency now (created_at r) = Inr (recency_score r)"
    by (simp add: r)
  show "final_score r =
      like_weight (load_weights pg (select_prefs db u)) * of_int (like_count r)
      + comment_weight (load_weights pg (select_prefs db u)) * of_int (comment_count r)
      + follower_weight (load_weights pg (select_prefs db u)) * (if is_from_followed r then 1 else 0)
      + recency_weight (load_weights pg (select_prefs db u)) * recency_score r"
    by (simp add: r score_def)
qed

lemma sorted_wrt_distinct_key:
  "sorted_wrt P xs \<Longrightarrow> distinct (map f xs) \<Longrightarrow> sorted_wrt (\<lambda>x y. P x y \<and> f x \<noteq> f y) xs"
  by (induction xs) auto

lemma ranked_columns:
  assumes "ranked pg db now u = Inr full"
  shows "mset (map post_id full) = mset (map p_id (posts db))"
    and "mset (map created_at full) = mset (map p_created_at (posts db))"
proof -
  from assms obtain js where js: "joined db now u = Inr js"
    and full: "full = order_by pg (map (select_row (load_weights pg (select_prefs db u))) js)"
    by (rule ranked_rows)
  have "mset (map post_id full) = mset (map post_id js)"
    unfolding full by (simp add: mset_order_by multiset.map_comp comp_def)
  then show "mset (map post_id full) = mset (map p_id (posts db))"
    by (simp add: joined_rows(1) [OF js])
  have "mset (map created_at full) = mset (map created_at js)"
    unfolding full by (simp add: mset_order_by multiset.map_comp comp_def)
  then show "mset (map created_at full) = mset (map p_created_at (posts db))"
    by (simp add: joined_rows(2) [OF js])
qed

lemma ranked_sorted:
  assumes "ranked pg db now u = Inr full"
  shows "sorted_wrt (\<lambda>r s. final_score s < final_score r
      \<or> (final_score r = final_score s \<and> created_at s \<le> created_at r)) full"
proof -
  from assms obtain js where
    "full = order_by pg (map (select_row (load_weights pg (select_prefs db u))) js)"
    by (rule ranked_rows)
  then show ?thesis by (simp add: sorted_order_by)
qed

lemma ranked_strictly_sorted:
  assumes "ranked pg db now u = Inr full" and "distinct (map p_created_at (posts db))"
  shows "sorted_wrt (\<lambda>r s. final_score s < final_score r
      \<or> (final_score r = final_score s \<and> created_at s < created_at r)) full"
proof -
  have "distinct (map created_at full)"
    using ranked_columns(2) [OF assms(1)] assms(2) by (metis mset_eq_imp_distinct_iff)
  with ranked_sorted [OF assms(1)]
  have "sorted_wrt (\<lambda>r s. (final_score s < final_score r
      \<or> (final_score r = final_score s \<and> created_at s \<le> created_at r))
      \<and> created_at r \<noteq> created_at s) full"
    by (rule sorted_wrt_distinct_key)
  then show ?thesis
    by (rule sorted_wrt_mono_rel [rotated]) auto
qed

lemma get_window:
  assumes "ranked pg db now u = Inr full"
  shows "get_custom_ranked_feed pg db now u l off
     = Inr (take (nat (greatest_0 l)) (drop (nat (greatest_0 off)) full))"
  using assms by (simp add: get_custom_ranked_feed_def)

lemmas ranking_defs =
  get_custom_ranked_feed_def ranked_def joined_def like_agg_def comment_agg_def count_int_def
  join_row_def recency_def hours_since_created_def extract_epoch_def follow_flags_def
  media_one_def select_row_def score_def order_by_def greatest_0_def load_weights_def
  select_prefs_def declared_weights_def joined_row.extend_def feed_row.fields_def

lemma scenario_result:
  "get_custom_ranked_feed pg scenario_db scenario_now ''requester'' (Some 20) (Some 0)
     = Inr scenario_rows"
  by (simp add: ranking_defs scenario_db_def scenario_now_def scenario_rows_def)

lemma count_int_length: "length ls \<le> 2147483647 \<Longrightarrow> count_int (int (length (filter P ls))) = Inr (int (length (filter P ls)))"
proof -
  assume "length ls \<le> 2147483647"
  moreover have "length (filter P ls) \<le> length ls" by simp
  ultimately have "int (length (filter P ls)) \<le> 2147483647" by linarith
  then show ?thesis by (simp add: count_int_def)
qed

lemma like_agg_total: "length ls \<le> 2147483647 \<Longrightarrow> \<exists>la. like_agg ls = Inr la"
  unfolding like_agg_def by (rule collect_total) (simp add: count_int_length)

lemma comment_agg_total: "length cs \<le> 2147483647 \<Longrightarrow> \<exists>ca. comment_agg cs = Inr ca"
  unfolding comment_agg_def by (rule collect_total) (simp add: count_int_length)

lemma recency_total: "created \<noteq> now + 3600000000 \<Longrightarrow> \<exists>s. recency now created = Inr s"
proof -
  assume ne: "created \<noteq> now + 3600000000"
  have "1 + hours_since_created now created \<noteq> 0"
  proof
    assume "1 + hours_since_created now created = 0"
    then have "(of_int (now - created) :: rat) = of_int (- 3600000000)"
      by (simp add: hours_since_created_def extract_epoch_def field_simps)
    then have "now - created = - 3600000000" by (simp only: of_int_eq_iff)
    with ne show False by simp
  qed
  then show ?thesis by (simp add: recency_def Let_def)
qed

lemma joined_total:
  assumes "length (likes db) \<le> 2147483647" and "length (comments db) \<le> 2147483647"
    and "\<forall>b\<in>set (posts db). p_created_at b \<noteq> now + 3600000000"
  shows "\<exists>js. joined db now u = Inr js"
proof -
  from like_agg_total [OF assms(1)] obtain la where la: "like_agg (likes db) = Inr la" ..
  from comment_agg_total [OF assms(2)] obtain ca where ca: "comment_agg (comments db) = Inr ca" ..
  have "\<exists>js. collect (map (join_row la ca (follow_flags (follows db) u (posts db)) (media db) now)
      (posts db)) = Inr js"
  proof (rule collect_total)
    fix b assume "b \<in> set (posts db)"
    with assms(3) have "p_created_at b \<noteq> now + 3600000000" by blast
    then obtain s where "recency now (p_created_at b) = Inr s" using recency_total by blast
    then show "\<exists>y. join_row la ca (follow_flags (follows db) u (posts db)) (media db) now b = Inr y"
      by (simp add: join_row_def)
  qed
  with la ca show ?thesis by (simp add: joined_def)
qed

lemma get_total:
  assumes "\<exists>js. joined db now u = Inr js"
  shows "\<exists>rows. get_custom_ranked_feed pg db now u l off = Inr rows"
  using assms by (auto simp: get_custom_ranked_feed_def ranked_def Let_def)

lemma assign_weight_cases:
  "arrow_text pg j k = None \<Longrightarrow> assign_weight pg j k w = w"
  "arrow_text pg j k = Some t \<Longrightarrow> numeric_in pg t = None \<Longrightarrow> assign_weight pg j k w = w"
  "arrow_text pg j k = Some t \<Longrightarrow> numeric_in pg t = Some v \<Longrightarrow> assign_weight pg j k w = v"
  by (simp_all add: assign_weight_def)

text \<open>Rows with pairwise different timestamps have pairwise different sort keys, so the
  order the database gives to tied rows plays no part: every execution sorts them the same
  way.\<close>

lemma order_by_unique:
  assumes "distinct (map created_at rows)"
  shows "order_by pg rows = sort_key (\<lambda>r. (- final_score r, - created_at r)) rows"
proof -
  let ?k = "\<lambda>r. (- final_score r, - created_at r)"
  let ?ys = "order_by pg rows"
  let ?zs = "sort_key ?k rows"
  from assms have d: "distinct rows" and i: "inj_on created_at (set rows)"
    by (simp_all add: distinct_map)
  have inj: "inj_on ?k (set rows)"
    by (rule inj_onI) (use i in \<open>auto dest: inj_onD\<close>)
  with d have dk: "distinct (map ?k rows)" by (simp add: distinct_map)
  have "sorted_wrt (\<lambda>r s. (- final_score r, - created_at r, tie_rank pg r)
        \<le> (- final_score s, - created_at s, tie_rank pg s)) ?ys"
    using sorted_sort_key [of "\<lambda>r. (- final_score r, - created_at r, tie_rank pg r)" rows]
    by (simp add: sorted_map order_by_def)
  then have "sorted_wrt (\<lambda>r s. ?k r \<le> ?k s) ?ys"
    by (rule sorted_wrt_mono_rel [rotated]) auto
  then have sy: "sorted (map ?k ?ys)" by (simp add: sorted_map)
  have sz: "sorted (map ?k ?zs)" by (rule sorted_sort_key)
  have my: "mset (map ?k ?ys) = mset (map ?k rows)" by (simp add: mset_order_by)
  have mz: "mset (map ?k ?zs) = mset (map ?k rows)" by simp
  have dy: "distinct (map ?k ?ys)" using dk by (simp only: mset_eq_imp_distinct_iff [OF my])
  have dz: "distinct (map ?k ?zs)" using dk by (simp only: mset_eq_imp_distinct_iff [OF mz])
  have "set (map ?k ?ys) = set (map ?k ?zs)" by (simp add: set_order_by)
  with sy dy sz dz have "map ?k ?ys = map ?k ?zs" by (rule sorted_distinct_set_unique)
  moreover have "inj_on ?k (set ?ys \<union> set ?zs)" using inj by (simp add: set_order_by)
  ultimately show ?thesis by (simp only: inj_on_map_eq_map)
qed

lemma arrow_text_tie: "arrow_text (pg\<lparr>tie_rank := t\<rparr>) j k = arrow_text pg j k"
  by (simp add: arrow_text_def split: json.splits option.splits)

lemma assign_weight_tie: "assign_weight (pg\<lparr>tie_rank := t\<rparr>) j k w = assign_weight pg j k w"
  by (simp add: assign_weight_def arrow_text_tie split: option.splits)

lemma load_weights_tie: "load_weights (pg\<lparr>tie_rank := t\<rparr>) prefs = load_weights pg prefs"
  by (cases prefs) (simp_all add: load_weights_def assign_weight_tie)

lemma ranked_tie:
  assumes "distinct (map p_created_at (posts db))"
  shows "ranked (pg\<lparr>tie_rank := t\<rparr>) db now u = ranked pg db now u"
proof (cases "joined db now u")
  case (Inl e)
  then show ?thesis by (simp add: ranked_def)
next
  case (Inr js)
  let ?rows = "map (select_row (load_weights pg (select_prefs db u))) js"
  have "map created_at ?rows = map p_created_at (posts db)"
    using joined_rows(2) [OF Inr] by (simp add: comp_def)
  with assms have "distinct (map created_at ?rows)" by simp
  then have "order_by (pg\<lparr>tie_rank := t\<rparr>) ?rows = order_by pg ?rows"
    by (simp only: order_by_unique)
  with Inr show ?thesis by (simp add: ranked_def load_weights_tie)
qed

section \<open>Facts about the handler\<close>

lemmas handler_defs =
  serve_handler_def window_def parseInt_def Math_max_def js_plus_def js_minus_def
  is_white_space_def is_digit_def digits_value_def get_property_def nullish_or_def falsy_def
  preferences_of_def algorithm_id_of_def custom_strategy_def third_party_strategy_def
  endpoint_of_def outbound_call_def
  row_index_def select_posts_def chronological_strategy_def run_strategy_def strategies_def
  exec_def object_prototype_functions_def call_inherited_def json_response_def

lemma parseInt_20 [simp]: "parseInt ''20'' = Num 20"
  by (simp add: parseInt_def is_white_space_def is_digit_def digits_value_def)

lemma parseInt_0 [simp]: "parseInt ''0'' = Num 0"
  by (simp add: parseInt_def is_white_space_def is_digit_def digits_value_def)

lemma Math_max_Num [simp]: "Math_max (Num x) (Num y) = Num (max x y)"
  by (simp add: Math_max_def)

lemma Math_max_zero: "Math_max a (Num 0) = Num q \<Longrightarrow> 0 \<le> q"
  by (auto simp: Math_max_def split: jsnum.splits)

lemma window_query:
  assumes "req_method req = ''GET'' \<or> req_json req = None"
  shows "window req =
     (Math_max (parseInt (case query_limit req of None \<Rightarrow> ''20'' | Some s \<Rightarrow> s)) (Num 0),
      Math_max (parseInt (case query_offset req of None \<Rightarrow> ''0'' | Some s \<Rightarrow> s)) (Num 0))"
  using assms by (auto simp: window_def Let_def)

lemma window_body:
  assumes "req_method req \<noteq> ''GET''" and "req_json req = Some b"
  shows "fst (window req) =
      (case get_property b ''limit'' of
         Some (JNum x) \<Rightarrow> Math_max (Num x) (Num 0)
       | _ \<Rightarrow> Math_max (parseInt (case query_limit req of None \<Rightarrow> ''20'' | Some s \<Rightarrow> s)) (Num 0))"
    and "snd (window req) =
      (case get_property b ''offset'' of
         Some (JNum x) \<Rightarrow> Math_max (Num x) (Num 0)
       | _ \<Rightarrow> Math_max (parseInt (case query_offset req of None \<Rightarrow> ''0'' | Some s \<Rightarrow> s)) (Num 0))"
  using assms by (simp_all add: window_def Let_def)

lemma window_not_negative:
  "(fst (window req) = Num q \<longrightarrow> 0 \<le> q) \<and> (snd (window req) = Num q \<longrightarrow> 0 \<le> q)"
  by (auto simp: window_def Let_def dest: Math_max_zero split: option.splits json.splits if_splits)

lemma strategies_own [simp]:
  "strategies env ''custom'' = Some (Own Custom)"
  "strategies env ''third_party'' = Some (Own Third_party)"
  "strategies env ''chronological'' = Some (Own Chronological)"
  by (simp_all add: strategies_def)

lemma exec_own [simp]:
  "exec env (JStr ''custom'') = Own Custom"
  "exec env (JStr ''third_party'') = Own Third_party"
  "exec env (JStr ''chronological'') = Own Chronological"
  by (simp_all add: exec_def)

lemma exec_fallback:
  assumes "k \<noteq> ''custom''" and "k \<noteq> ''third_party''"
    and "k \<notin> set object_prototype_functions" and "k \<noteq> ''__proto__''"
  shows "exec env (JStr k) = Own Chronological"
  using assms by (simp add: exec_def strategies_def)

lemma algorithm_id_missing [simp]: "algorithm_id_of (JObj []) = JStr ''chronological''"
  by (simp add: algorithm_id_of_def get_property_def nullish_or_def)

lemma serve_handler_own:
  assumes "getUser env (case authorization req of None \<Rightarrow> [] | Some h \<Rightarrow> h) = Some userId"
    and "preferences_of (read_preferences env userId) = (prefs, pevs)"
    and "exec env (algorithm_id_of prefs) = Own s"
  shows "serve_handler env req =
     (Responded (fst (run_strategy env prefs userId (case authorization req of None \<Rightarrow> [] | Some h \<Rightarrow> h)
                        (fst (window req)) (snd (window req)) s)),
      pevs @ snd (run_strategy env prefs userId (case authorization req of None \<Rightarrow> [] | Some h \<Rightarrow> h)
                        (fst (window req)) (snd (window req)) s))"
  using assms by (simp add: serve_handler_def Let_def split: prod.splits)

lemma run_strategy_parts:
  "fst (run_strategy env prefs userId auth limit offset Chronological)
     = fst (chronological_strategy env limit offset)"
  "snd (run_strategy env prefs userId auth limit offset Chronological)
     = Invoke Chronological # snd (chronological_strategy env limit offset)"
  "fst (run_strategy env prefs userId auth limit offset Third_party)
     = fst (third_party_strategy env prefs userId auth limit offset)"
  "snd (run_strategy env prefs userId auth limit offset Third_party)
     = Invoke Third_party # snd (third_party_strategy env prefs userId auth limit offset)"
  "fst (run_strategy env prefs userId auth limit offset Custom)
     = fst (custom_strategy env userId limit offset)"
  "snd (run_strategy env prefs userId auth limit offset Custom)
     = Invoke Custom # snd (custom_strategy env userId limit offset)"
  by (simp_all add: run_strategy_def split: prod.splits)

lemma row_index_of_nat: "row_index (Num (of_nat n)) = Some n"
  by (simp add: row_index_def)

lemma chronological_range:
  assumes "1 \<le> L"
  shows "Math_max (js_minus (js_plus (Num (of_nat off)) (Num (of_nat L))) (Num 1)) (Num (of_nat off))
     = Num (of_nat (off + L - 1))"
proof -
  have a: "(of_nat off :: rat) + of_nat L - 1 = of_nat (off + L - 1)"
    using assms by (simp add: of_nat_diff)
  have "off \<le> off + L - 1" using assms by simp
  then have "(of_nat off :: rat) \<le> of_nat (off + L - 1)" by (simp only: of_nat_le_iff)
  then have b: "max (of_nat (off + L - 1) :: rat) (of_nat off) = of_nat (off + L - 1)"
    by (simp only: max_absorb1)
  show ?thesis
    by (simp only: js_plus_def js_minus_def Math_max_def jsnum.case a b)
qed

lemma select_posts_length:
  assumes "select_posts env (Num (of_nat off)) (Num (of_nat (off + L - 1))) = Inr rows" and "1 \<le> L"
  shows "length rows \<le> L"
proof (cases "posts_table env")
  case (Inl msg)
  with assms(1) show ?thesis by (simp add: select_posts_def row_index_of_nat)
next
  case (Inr ps)
  with assms(1) have "rows = take (Suc (off + L - 1) - off) (drop off (sort_key (\<lambda>p. - p_created_at p) ps))"
    by (simp add: select_posts_def row_index_of_nat)
  then have "length rows \<le> Suc (off + L - 1) - off" by simp
  also have "Suc (off + L - 1) - off = L" using assms(2) by arith
  finally show ?thesis .
qed

lemma chronological_at_most:
  assumes "chronological_strategy env (Num (of_nat L)) (Num (of_nat off)) = (r, evs)"
    and "body r = Posts (Rows rows) name" and "1 \<le> L"
  shows "length rows \<le> L"
proof (cases "select_posts env (Num (of_nat off)) (Num (of_nat (off + L - 1)))")
  case (Inl msg)
  with assms(1) have "r = json_response (Error_details ''chronological_failed'' msg) 500"
    by (simp add: chronological_strategy_def chronological_range [OF assms(3)])
  with assms(2) show ?thesis by (simp add: json_response_def)
next
  case (Inr page)
  with assms(1) have "r = json_response (Posts (Rows page) ''chronological'') 200"
    by (simp add: chronological_strategy_def chronological_range [OF assms(3)])
  with assms(2) have "rows = page" by (simp add: json_response_def)
  with Inr have "select_posts env (Num (of_nat off)) (Num (of_nat (off + L - 1))) = Inr rows"
    by simp
  then show ?thesis using assms(3) by (rule select_posts_length)
qed

lemma get_at_most:
  assumes "get_custom_ranked_feed pg db now u l off = Inr rows"
  shows "int (length rows) \<le> greatest_0 l"
proof -
  from assms obtain full where "rows = take (nat (greatest_0 l)) (drop (nat (greatest_0 off)) full)"
    by (rule get_rows_subset)
  moreover have "0 \<le> greatest_0 l" by (simp add: greatest_0_def split: option.splits)
  ultimately show ?thesis by simp
qed

lemma get_clamps:
  "get_custom_ranked_feed pg db now u (Some L) (Some off)
     = get_custom_ranked_feed pg db now u (Some (max L 0)) (Some (max off 0))"
  by (cases "ranked pg db now u") (simp_all add: get_custom_ranked_feed_def greatest_0_def)

lemma third_party_cases:
  "falsy (endpoint_of prefs) \<Longrightarrow>
     third_party_strategy env prefs userId auth limit offset
       = (json_response (Error ''missing_third_party_endpoint'') 400, [])"
  "\<not> falsy (endpoint_of prefs) \<Longrightarrow>
   \<not> url_parses env (to_string (number_to_string env) (endpoint_of prefs)) \<Longrightarrow>
     third_party_strategy env prefs userId auth limit offset
       = (json_response (Error ''third_party_exception'') 500,
          [Console_error ''third_party exception''])"
  "\<not> falsy (endpoint_of prefs) \<Longrightarrow>
   url_parses env (to_string (number_to_string env) (endpoint_of prefs)) \<Longrightarrow>
   fetch env (outbound_call env prefs userId auth limit offset) = Network_error \<Longrightarrow>
     third_party_strategy env prefs userId auth limit offset
       = (json_response (Error ''third_party_exception'') 500,
          [Fetch (outbound_call env prefs userId auth limit offset),
           Console_error ''third_party exception''])"
  "\<not> falsy (endpoint_of prefs) \<Longrightarrow>
   url_parses env (to_string (number_to_string env) (endpoint_of prefs)) \<Longrightarrow>
   fetch env (outbound_call env prefs userId auth limit offset) = Reply st b \<Longrightarrow>
   \<not> (200 \<le> st \<and> st \<le> 299) \<Longrightarrow>
     third_party_strategy env prefs userId auth limit offset
       = (json_response (Error_status ''third_party_failed'' st) 502,
          [Fetch (outbound_call env prefs userId auth limit offset)])"
  "\<not> falsy (endpoint_of prefs) \<Longrightarrow>
   url_parses env (to_string (number_to_string env) (endpoint_of prefs)) \<Longrightarrow>
   fetch env (outbound_call env prefs userId auth limit offset) = Reply st None \<Longrightarrow>
   200 \<le> st \<and> st \<le> 299 \<Longrightarrow>
     third_party_strategy env prefs userId auth limit offset
       = (json_response (Error ''third_party_exception'') 500,
          [Fetch (outbound_call env prefs userId auth limit offset),
           Console_error ''third_party exception''])"
  "\<not> falsy (endpoint_of prefs) \<Longrightarrow>
   url_parses env (to_string (number_to_string env) (endpoint_of prefs)) \<Longrightarrow>
   fetch env (outbound_call env prefs userId auth limit offset) = Reply st (Some d) \<Longrightarrow>
   200 \<le> st \<and> st \<le> 299 \<Longrightarrow>
     third_party_strategy env prefs userId auth limit offset
       = (json_response (Posts (Data d) ''third_party'') 200,
          [Fetch (outbound_call env prefs userId auth limit offset)])"
  by (simp_all add: third_party_strategy_def Let_def)

lemma third_party_fetches:
  "fetches (snd (third_party_strategy env prefs userId auth limit offset))
     = (if falsy (endpoint_of prefs)
           \<or> \<not> url_parses env (to_string (number_to_string env) (endpoint_of prefs))
        then [] else [outbound_call env prefs userId auth limit offset])"
proof (cases "falsy (endpoint_of prefs)")
  case True
  then show ?thesis by (simp add: third_party_cases(1))
next
  case nf: False
  show ?thesis
  proof (cases "url_parses env (to_string (number_to_string env) (endpoint_of prefs))")
    case False
    with nf show ?thesis by (simp add: third_party_cases(2))
  next
    case ok: True
    show ?thesis
    proof (cases "fetch env (outbound_call env prefs userId auth limit offset)")
      case Network_error
      with nf ok show ?thesis by (simp add: third_party_cases(3))
    next
      case (Reply st b)
      show ?thesis
      proof (cases "200 \<le> st \<and> st \<le> 299")
        case False
        with nf ok Reply show ?thesis by (simp add: third_party_cases(4))
      next
        case True
        with nf ok Reply show ?thesis
          by (cases b) (simp_all add: third_party_cases(5,6))
      qed
    qed
  qed
qed

lemma parseInt_samples:
  "parseInt ''1'' = Num 1" "parseInt ''-3'' = Num (- 3)" "parseInt ''-4'' = Num (- 4)"
  by (simp_all add: parseInt_def is_white_space_def is_digit_def digits_value_def)

lemma sample_user:
  "getUser sample_env (case authorization sample_request of None \<Rightarrow> [] | Some h \<Rightarrow> h) = Some ''requester''"
  "getUser (with_preferences j) (case authorization sample_request of None \<Rightarrow> [] | Some h \<Rightarrow> h) = Some ''requester''"
  "getUser generous_upstream (case authorization (get_with_query l off) of None \<Rightarrow> [] | Some h \<Rightarrow> h) = Some ''requester''"
  "getUser failing_upstream (case authorization sample_request of None \<Rightarrow> [] | Some h \<Rightarrow> h) = Some ''requester''"
  by (simp_all add: sample_env_def with_preferences_def generous_upstream_def failing_upstream_def
      sample_request_def get_with_query_def)

lemma falsy_absent:
  "get_property prefs ''third_party_endpoint'' = None
     \<or> get_property prefs ''third_party_endpoint'' = Some JNull
     \<or> get_property prefs ''third_party_endpoint'' = Some (JStr []) \<Longrightarrow>
   falsy (endpoint_of prefs)"
  by (auto simp: endpoint_of_def nullish_or_def falsy_def)

lemma third_party_at_most_one_call:
  "length (fetches (snd (third_party_strategy env prefs userId auth limit offset))) \<le> 1"
  by (simp add: third_party_fetches)

lemma exec_by_name: "exec env (JStr (strategy_name s)) = Own s"
  by (cases s) (simp_all add: strategy_name_def)

lemma third_party_invokes_nothing:
  "invoked (snd (third_party_strategy env prefs userId auth limit offset)) = []"
proof (cases "falsy (endpoint_of prefs)")
  case True
  then show ?thesis by (simp add: third_party_cases(1))
next
  case nf: False
  show ?thesis
  proof (cases "url_parses env (to_string (number_to_string env) (endpoint_of prefs))")
    case False
    with nf show ?thesis by (simp add: third_party_cases(2))
  next
    case ok: True
    show ?thesis
    proof (cases "fetch env (outbound_call env prefs userId auth limit offset)")
      case Network_error
      with nf ok show ?thesis by (simp add: third_party_cases(3))
    next
      case (Reply st b)
      show ?thesis
      proof (cases "200 \<le> st \<and> st \<le> 299")
        case False
        with nf ok Reply show ?thesis by (simp add: third_party_cases(4))
      next
        case True
        with nf ok Reply show ?thesis
          by (cases b) (simp_all add: third_party_cases(5,6))
      qed
    qed
  qed
qed

lemma run_strategy_invokes_one:
  "invoked (snd (run_strategy env prefs userId auth limit offset s)) = [s]"
proof (cases s)
  case Custom
  then show ?thesis
    by (cases "rpc env userId limit offset") (simp_all add: run_strategy_parts custom_strategy_def)
next
  case Third_party
  then show ?thesis by (simp add: run_strategy_parts third_party_invokes_nothing)
next
  case Chronological
  then show ?thesis
    by (cases "select_posts env offset (Math_max (js_minus (js_plus offset limit) (Num 1)) offset)")
      (simp_all add: run_strategy_parts chronological_strategy_def)
qed

section \<open>C1: the final score\<close>

text \<open>
  C1. Every row the custom strategy returns has
  \<open>final_score = like_weight * like_count + comment_weight * comment_count
  + follower_weight * (1 if is_from_followed else 0) + recency_weight * recency_score\<close>,
  with the weights resolved for the requester. With the default weights a post with 3
  likes, no comment, an author who is not followed and recency score 0.5 scores 3.5, a
  post with 1 like, no comment, a followed author and recency score 1 scores 3, and the
  first is ordered before the second; the scenario of the two posts P1 and P2 evaluates
  to exactly these rows, P1 first.
\<close>

theorem final_score_is_weighted_sum:
  "(get_custom_ranked_feed pg db now u l off = Inr rows \<longrightarrow>
      (\<forall>r\<in>set rows.
         final_score r =
           like_weight (load_weights pg (select_prefs db u)) * of_int (like_count r)
           + comment_weight (load_weights pg (select_prefs db u)) * of_int (comment_count r)
           + follower_weight (load_weights pg (select_prefs db u)) * (if is_from_followed r then 1 else 0)
           + recency_weight (load_weights pg (select_prefs db u)) * recency_score r))
   \<and> (like_count j = 3 \<and> comment_count j = 0 \<and> \<not> is_from_followed j \<and> recency_score j = 1 / 2 \<longrightarrow>
        final_score (select_row declared_weights j) = 7 / 2)
   \<and> (like_count k = 1 \<and> comment_count k = 0 \<and> is_from_followed k \<and> recency_score k = 1 \<longrightarrow>
        final_score (select_row declared_weights k) = 3)
   \<and> (final_score a = 7 / 2 \<and> final_score b = 3 \<longrightarrow> order_by pg [b, a] = [a, b])
   \<and> load_weights pg (select_prefs scenario_db ''requester'') = declared_weights
   \<and> get_custom_ranked_feed pg scenario_db scenario_now ''requester'' (Some 20) (Some 0)
        = Inr scenario_rows
   \<and> map (\<lambda>r. (post_id r, like_count r, comment_count r, is_from_followed r, recency_score r,
                 final_score r)) scenario_rows
        = [(''P1'', 3, 0, False, 1 / 2, 7 / 2), (''P2'', 1, 0, True, 1, 3)]"
proof (intro conjI impI)
  assume "get_custom_ranked_feed pg db now u l off = Inr rows"
  then obtain full where "ranked pg db now u = Inr full" and "set rows \<subseteq> set full"
    by (rule get_rows_subset)
  then show "\<forall>r\<in>set rows.
         final_score r =
           like_weight (load_weights pg (select_prefs db u)) * of_int (like_count r)
           + comment_weight (load_weights pg (select_prefs db u)) * of_int (comment_count r)
           + follower_weight (load_weights pg (select_prefs db u)) * (if is_from_followed r then 1 else 0)
           + recency_weight (load_weights pg (select_prefs db u)) * recency_score r"
    by (blast dest: ranked_row_facts(2))
next
  assume "like_count j = 3 \<and> comment_count j = 0 \<and> \<not> is_from_followed j \<and> recency_score j = 1 / 2"
  then show "final_score (select_row declared_weights j) = 7 / 2"
    by (simp add: score_def declared_weights_def)
next
  assume "like_count k = 1 \<and> comment_count k = 0 \<and> is_from_followed k \<and> recency_score k = 1"
  then show "final_score (select_row declared_weights k) = 3"
    by (simp add: score_def declared_weights_def)
next
  assume "final_score a = 7 / 2 \<and> final_score b = 3"
  then show "order_by pg [b, a] = [a, b]"
    by (simp add: order_by_def)
next
  show "load_weights pg (select_prefs scenario_db ''requester'') = declared_weights"
    by (simp add: load_weights_def select_prefs_def scenario_db_def)
next
  show "get_custom_ranked_feed pg scenario_db scenario_now ''requester'' (Some 20) (Some 0)
        = Inr scenario_rows"
    by (rule scenario_result)
next
  show "map (\<lambda>r. (post_id r, like_count r, comment_count r, is_from_followed r, recency_score r,
                 final_score r)) scenario_rows
        = [(''P1'', 3, 0, False, 1 / 2, 7 / 2), (''P2'', 1, 0, True, 1, 3)]"
    by (simp add: scenario_rows_def)
qed

text \<open>The theorem at the scenario.\<close>

theorem final_score_is_weighted_sum_witness:
  "get_custom_ranked_feed sample_pg scenario_db scenario_now ''requester'' (Some 20) (Some 0)
     = Inr scenario_rows
   \<and> final_score (hd scenario_rows) = 1 * 3 + 1 / 2 * 0 + 1 * 0 + 1 * (1 / 2)
   \<and> final_score (last scenario_rows) = 1 * 1 + 1 / 2 * 0 + 1 * 1 + 1 * 1
   \<and> final_score (select_row declared_weights (joined_row.truncate (hd scenario_rows))) = 7 / 2
   \<and> final_score (select_row declared_weights (joined_row.truncate (last scenario_rows))) = 3
   \<and> order_by sample_pg (rev scenario_rows) = scenario_rows"
proof -
  have rows: "get_custom_ranked_feed sample_pg scenario_db scenario_now ''requester'' (Some 20) (Some 0)
     = Inr scenario_rows" by (rule scenario_result)
  have w: "load_weights sample_pg (select_prefs scenario_db ''requester'') = declared_weights"
    by (simp add: load_weights_def select_prefs_def scenario_db_def)
  from final_score_is_weighted_sum [where pg = sample_pg and db = scenario_db and now = scenario_now
      and u = "''requester''" and l = "Some 20" and off = "Some 0" and rows = scenario_rows
      and j = "joined_row.truncate (hd scenario_rows)"
      and k = "joined_row.truncate (last scenario_rows)"
      and a = "hd scenario_rows" and b = "last scenario_rows"] rows w
  show ?thesis
    by (simp add: scenario_rows_def declared_weights_def joined_row.truncate_def)
qed

section \<open>C2: the full ordering and its pages\<close>

text \<open>
  C2, as amended. With \<open>posts.id\<close> a key, the full ordering that one execution of the
  custom strategy computes at one instant holds every post once, sorted by \<open>final_score\<close>
  descending with ties broken by \<open>created_at\<close> descending, and that execution returns
  exactly the rows [offset, offset + limit) of its ordering, negative values counting as
  zero. The order of rows tied on both keys is the database's choice (\<open>tie_rank\<close>) and may
  differ from one execution to the next. When moreover the timestamps are unique, the
  ordering is strict and the same under every such choice: any execution at that instant
  returns the rows [offset, offset + limit) of the one full ordering, and the pages
  (offset 0, limit 10) and (offset 10, limit 10), fetched by two executions at that same
  instant with any two tie orders, have disjoint sets of post ids and together are the
  first 20 rows of the full ordering.
\<close>

theorem ranked_feed_pages:
  assumes "distinct (map p_id (posts db))" and "ranked pg db now u = Inr full"
  shows "sorted_wrt (\<lambda>r s. final_score s < final_score r
            \<or> (final_score r = final_score s \<and> created_at s \<le> created_at r)) full
    \<and> mset (map post_id full) = mset (map p_id (posts db))
    \<and> get_custom_ranked_feed pg db now u (Some l) (Some off)
         = Inr (take (nat (max l 0)) (drop (nat (max off 0)) full))
    \<and> (distinct (map p_created_at (posts db)) \<longrightarrow>
          sorted_wrt (\<lambda>r s. final_score s < final_score r
            \<or> (final_score r = final_score s \<and> created_at s < created_at r)) full
        \<and> ranked (pg\<lparr>tie_rank := t\<rparr>) db now u = Inr full
        \<and> get_custom_ranked_feed (pg\<lparr>tie_rank := t\<rparr>) db now u (Some l) (Some off)
            = Inr (take (nat (max l 0)) (drop (nat (max off 0)) full))
        \<and> (\<exists>page1 page2.
              get_custom_ranked_feed (pg\<lparr>tie_rank := t1\<rparr>) db now u (Some 10) (Some 0) = Inr page1
            \<and> get_custom_ranked_feed (pg\<lparr>tie_rank := t2\<rparr>) db now u (Some 10) (Some 10) = Inr page2
            \<and> set (map post_id page1) \<inter> set (map post_id page2) = {}
            \<and> page1 @ page2 = take 20 full))"
proof -
  have ids: "mset (map post_id full) = mset (map p_id (posts db))"
    using assms(2) by (rule ranked_columns(1))
  have w: "get_custom_ranked_feed pg db now u (Some l) (Some off)
         = Inr (take (nat (max l 0)) (drop (nat (max off 0)) full))"
    by (simp add: get_window [OF assms(2)] greatest_0_def)
  have unique: "sorted_wrt (\<lambda>r s. final_score s < final_score r
            \<or> (final_score r = final_score s \<and> created_at s < created_at r)) full
        \<and> ranked (pg\<lparr>tie_rank := t\<rparr>) db now u = Inr full
        \<and> get_custom_ranked_feed (pg\<lparr>tie_rank := t\<rparr>) db now u (Some l) (Some off)
            = Inr (take (nat (max l 0)) (drop (nat (max off 0)) full))
        \<and> (\<exists>page1 page2.
              get_custom_ranked_feed (pg\<lparr>tie_rank := t1\<rparr>) db now u (Some 10) (Some 0) = Inr page1
            \<and> get_custom_ranked_feed (pg\<lparr>tie_rank := t2\<rparr>) db now u (Some 10) (Some 10) = Inr page2
            \<and> set (map post_id page1) \<inter> set (map post_id page2) = {}
            \<and> page1 @ page2 = take 20 full)"
    if ts: "distinct (map p_created_at (posts db))"
  proof -
    have any: "ranked (pg\<lparr>tie_rank := t'\<rparr>) db now u = Inr full" for t'
      using assms(2) by (simp only: ranked_tie [OF ts])
    have "distinct (map post_id full)"
      using assms(1) by (simp only: mset_eq_imp_distinct_iff [OF ids])
    then have "distinct (map post_id (take 20 full))"
      by (simp add: take_map [symmetric] distinct_take del: take_map)
    moreover have split: "take 10 full @ take 10 (drop 10 full) = take 20 full"
      using take_add [of 10 10 full] by simp
    ultimately have "distinct (map post_id (take 10 full) @ map post_id (take 10 (drop 10 full)))"
      by (metis map_append)
    then have disj: "set (map post_id (take 10 full)) \<inter> set (map post_id (take 10 (drop 10 full))) = {}"
      by (simp only: distinct_append)
    have p1: "get_custom_ranked_feed (pg\<lparr>tie_rank := t1\<rparr>) db now u (Some 10) (Some 0)
        = Inr (take 10 full)"
      by (simp add: get_window [OF any] greatest_0_def)
    have p2: "get_custom_ranked_feed (pg\<lparr>tie_rank := t2\<rparr>) db now u (Some 10) (Some 10)
        = Inr (take 10 (drop 10 full))"
      by (simp add: get_window [OF any] greatest_0_def)
    have wt: "get_custom_ranked_feed (pg\<lparr>tie_rank := t\<rparr>) db now u (Some l) (Some off)
            = Inr (take (nat (max l 0)) (drop (nat (max off 0)) full))"
      by (simp add: get_window [OF any] greatest_0_def)
    show ?thesis
      using ranked_strictly_sorted [OF assms(2) ts] any [of t] wt p1 p2 disj split by blast
  qed
  show ?thesis
    using ranked_sorted [OF assms(2)] ids w unique by blast
qed

text \<open>The theorem on the eleven posts at the first instant, the two pages fetched under
  two different tie orders: the second page holds A.\<close>

theorem ranked_feed_pages_witness:
  "distinct (map p_id (posts drift_db))
   \<and> distinct (map p_created_at (posts drift_db))
   \<and> (\<exists>full page1 page2.
        ranked sample_pg drift_db first_fetch ''requester'' = Inr full
      \<and> map post_id full = [''S9'', ''S8'', ''S7'', ''S6'', ''S5'', ''S4'', ''S3'', ''S2'', ''S1'', ''B'', ''A'']
      \<and> ranked (sample_pg\<lparr>tie_rank := last_id_first\<rparr>) drift_db first_fetch ''requester'' = Inr full
      \<and> get_custom_ranked_feed (sample_pg\<lparr>tie_rank := (\<lambda>r. 0)\<rparr>) drift_db first_fetch ''requester''
           (Some 10) (Some 0) = Inr page1
      \<and> get_custom_ranked_feed (sample_pg\<lparr>tie_rank := last_id_first\<rparr>) drift_db first_fetch ''requester''
           (Some 10) (Some 10) = Inr page2
      \<and> map post_id page1 = [''S9'', ''S8'', ''S7'', ''S6'', ''S5'', ''S4'', ''S3'', ''S2'', ''S1'', ''B'']
      \<and> map post_id page2 = [''A'']
      \<and> set (map post_id page1) \<inter> set (map post_id page2) = {}
      \<and> page1 @ page2 = take 20 full)"
proof -
  have d: "distinct (map p_id (posts drift_db))"
    by (simp add: drift_db_def)
  have ts: "distinct (map p_created_at (posts drift_db))"
    by (simp add: drift_db_def)
  have "map_sum id (map post_id) (ranked sample_pg drift_db first_fetch ''requester'')
      = Inr [''S9'', ''S8'', ''S7'', ''S6'', ''S5'', ''S4'', ''S3'', ''S2'', ''S1'', ''B'', ''A'']"
    by (simp add: ranking_defs drift_db_def first_fetch_def sample_pg_def)
  then obtain full where f: "ranked sample_pg drift_db first_fetch ''requester'' = Inr full"
    and ids: "map post_id full = [''S9'', ''S8'', ''S7'', ''S6'', ''S5'', ''S4'', ''S3'', ''S2'', ''S1'', ''B'', ''A'']"
    by (cases "ranked sample_pg drift_db first_fetch ''requester''") auto
  note first = ranked_feed_pages [OF d f, where t = "\<lambda>r. 0" and l = 10 and off = 0
      and ?t1.0 = "\<lambda>r. 0" and ?t2.0 = last_id_first]
  note second = ranked_feed_pages [OF d f, where t = last_id_first and l = 10 and off = 10
      and ?t1.0 = "\<lambda>r. 0" and ?t2.0 = last_id_first]
  from second ts have other: "ranked (sample_pg\<lparr>tie_rank := last_id_first\<rparr>) drift_db first_fetch ''requester'' = Inr full"
    by blast
  from first ts obtain page1 page2 where
    p1: "get_custom_ranked_feed (sample_pg\<lparr>tie_rank := (\<lambda>r. 0)\<rparr>) drift_db first_fetch ''requester''
           (Some 10) (Some 0) = Inr page1"
    and p2: "get_custom_ranked_feed (sample_pg\<lparr>tie_rank := last_id_first\<rparr>) drift_db first_fetch ''requester''
           (Some 10) (Some 10) = Inr page2"
    and disj: "set (map post_id page1) \<inter> set (map post_id page2) = {}"
    and cat: "page1 @ page2 = take 20 full"
    by blast
  from first ts have "get_custom_ranked_feed (sample_pg\<lparr>tie_rank := (\<lambda>r. 0)\<rparr>) drift_db first_fetch ''requester''
           (Some 10) (Some 0) = Inr (take (nat (max 10 0)) (drop (nat (max 0 0)) full))"
    by blast
  with p1 have e1: "page1 = take 10 full" by simp
  from second ts have "get_custom_ranked_feed (sample_pg\<lparr>tie_rank := last_id_first\<rparr>) drift_db first_fetch ''requester''
           (Some 10) (Some 10) = Inr (take (nat (max 10 0)) (drop (nat (max 10 0)) full))"
    by blast
  with p2 have e2: "page2 = take 10 (drop 10 full)" by simp
  from e1 e2 have "map post_id page1 = take 10 (map post_id full)"
    and "map post_id page2 = take 10 (drop 10 (map post_id full))"
    by (simp_all add: take_map drop_map)
  then have m1: "map post_id page1 = [''S9'', ''S8'', ''S7'', ''S6'', ''S5'', ''S4'', ''S3'', ''S2'', ''S1'', ''B'']"
    and m2: "map post_id page2 = [''A'']"
    by (simp_all add: ids)
  show ?thesis
    by (intro conjI exI) (rule d ts f ids other p1 p2 m1 m2 disj cat)+
qed

text \<open>C2 as stated speaks of two fetches against an unchanged data set. Two fetches are
  evaluated at two instants, and the recency scores move in between: at the first instant
  B is tenth and A eleventh, 36 milliseconds later A is tenth and B eleventh, so B is on
  both pages and A on neither.\<close>

theorem pages_at_two_instants_overlap:
  "map_sum id (map post_id)
     (get_custom_ranked_feed sample_pg drift_db first_fetch ''requester'' (Some 10) (Some 0))
     = Inr [''S9'', ''S8'', ''S7'', ''S6'', ''S5'', ''S4'', ''S3'', ''S2'', ''S1'', ''B'']
   \<and> map_sum id (map post_id)
     (get_custom_ranked_feed sample_pg drift_db second_fetch ''requester'' (Some 10) (Some 10))
     = Inr [''B'']"
  by (simp add: ranking_defs drift_db_def first_fetch_def second_fetch_def)

text \<open>Without unique timestamps the pages of two executions need not be disjoint even at
  one instant: T1 and T2 have the same score and the same timestamp, the first execution
  puts T1 first and returns it as page one, the second puts T2 first and returns T1 as
  page two.\<close>

lemma tied_rows_may_repeat:
  "map_sum id (map post_id)
     (get_custom_ranked_feed sample_pg tied_db 0 ''requester'' (Some 1) (Some 0)) = Inr [''T1'']
   \<and> map_sum id (map post_id)
     (get_custom_ranked_feed (sample_pg\<lparr>tie_rank := last_id_first\<rparr>) tied_db 0 ''requester''
        (Some 1) (Some 1)) = Inr [''T1'']"
  by (simp add: ranking_defs tied_db_def sample_pg_def last_id_first_def)

section \<open>C3: resolving the preferences\<close>

text \<open>
  C3. When the requester has no preference record, or the read of the record fails, the
  handler goes on with the empty preference object: the algorithm resolves to
  \<open>chronological\<close>, the response is the one of the chronological strategy, and a failed
  read leaves one line in the log and nothing in the response. The ranking function gives
  a requester without a record, and an empty record, the weights 1, 0.5, 1 and 1.
\<close>

theorem preference_resolution_fails_soft:
  "(getUser env (case authorization req of None \<Rightarrow> [] | Some h \<Rightarrow> h) = Some userId
      \<and> (read_preferences env userId = No_row \<or> read_preferences env userId = Read_failed e) \<longrightarrow>
        fst (preferences_of (read_preferences env userId)) = JObj []
      \<and> algorithm_id_of (fst (preferences_of (read_preferences env userId))) = JStr ''chronological''
      \<and> exec env (JStr ''chronological'') = Own Chronological
      \<and> fst (serve_handler env req)
          = Responded (fst (chronological_strategy env (fst (window req)) (snd (window req))))
      \<and> snd (serve_handler env req)
          = snd (preferences_of (read_preferences env userId))
            @ Invoke Chronological # snd (chronological_strategy env (fst (window req)) (snd (window req))))
   \<and> preferences_of (Read_failed e) = (JObj [], [Console_error ''preferences error''])
   \<and> preferences_of No_row = (JObj [], [])
   \<and> load_weights pg (Some (JObj []))
       = \<lparr>like_weight = 1, comment_weight = 1 / 2, follower_weight = 1, recency_weight = 1\<rparr>
   \<and> (select_prefs db u = None \<longrightarrow>
        load_weights pg (select_prefs db u)
          = \<lparr>like_weight = 1, comment_weight = 1 / 2, follower_weight = 1, recency_weight = 1\<rparr>)"
proof -
  have handler: "fst (preferences_of (read_preferences env userId)) = JObj []
      \<and> algorithm_id_of (fst (preferences_of (read_preferences env userId))) = JStr ''chronological''
      \<and> exec env (JStr ''chronological'') = Own Chronological
      \<and> fst (serve_handler env req)
          = Responded (fst (chronological_strategy env (fst (window req)) (snd (window req))))
      \<and> snd (serve_handler env req)
          = snd (preferences_of (read_preferences env userId))
            @ Invoke Chronological # snd (chronological_strategy env (fst (window req)) (snd (window req)))"
    if h: "getUser env (case authorization req of None \<Rightarrow> [] | Some h \<Rightarrow> h) = Some userId
      \<and> (read_preferences env userId = No_row \<or> read_preferences env userId = Read_failed e)"
  proof -
    from h obtain pevs where p: "preferences_of (read_preferences env userId) = (JObj [], pevs)"
      by (auto simp: preferences_of_def)
    have x: "exec env (algorithm_id_of (JObj [])) = Own Chronological" by simp
    note sh = serve_handler_own [OF conjunct1 [OF h] p x]
    show ?thesis by (simp add: p sh run_strategy_parts)
  qed
  have logged: "preferences_of (Read_failed e) = (JObj [], [Console_error ''preferences error''])"
    and silent: "preferences_of No_row = (JObj [], [])"
    by (simp_all add: preferences_of_def)
  have empty: "load_weights pg (Some (JObj []))
       = \<lparr>like_weight = 1, comment_weight = 1 / 2, follower_weight = 1, recency_weight = 1\<rparr>"
    by (simp add: load_weights_def assign_weight_def arrow_text_def declared_weights_def)
  have absent: "load_weights pg (select_prefs db u)
          = \<lparr>like_weight = 1, comment_weight = 1 / 2, follower_weight = 1, recency_weight = 1\<rparr>"
    if "select_prefs db u = None"
    using that by (simp add: load_weights_def declared_weights_def)
  from handler logged silent empty absent show ?thesis by blast
qed

text \<open>The theorem at a requester without a record and at a failing read.\<close>

theorem preference_resolution_fails_soft_witness:
  "getUser sample_env ''Bearer token'' = Some ''requester''
   \<and> read_preferences sample_env ''requester'' = No_row
   \<and> serve_handler sample_env sample_request
       = (Responded \<lparr>status = 200, body = Posts (Rows (posts scenario_db)) ''chronological''\<rparr>,
          [Invoke Chronological])
   \<and> serve_handler (sample_env\<lparr>read_preferences := (\<lambda>_. Read_failed ''timeout'')\<rparr>) sample_request
       = (Responded \<lparr>status = 200, body = Posts (Rows (posts scenario_db)) ''chronological''\<rparr>,
          [Console_error ''preferences error'', Invoke Chronological])
   \<and> select_prefs scenario_db ''requester'' = None
   \<and> load_weights sample_pg (select_prefs scenario_db ''requester'')
       = \<lparr>like_weight = 1, comment_weight = 1 / 2, follower_weight = 1, recency_weight = 1\<rparr>"
proof -
  let ?failing = "sample_env\<lparr>read_preferences := (\<lambda>_. Read_failed ''timeout'')\<rparr>"
  have u: "getUser sample_env (case authorization sample_request of None \<Rightarrow> [] | Some h \<Rightarrow> h)
       = Some ''requester''"
    "getUser ?failing (case authorization sample_request of None \<Rightarrow> [] | Some h \<Rightarrow> h)
       = Some ''requester''"
    by (simp_all add: sample_env_def sample_request_def)
  have r: "read_preferences sample_env ''requester'' = No_row"
    "read_preferences ?failing ''requester'' = Read_failed ''timeout''"
    by (simp_all add: sample_env_def)
  have w: "window sample_request = (Num 20, Num 0)"
    by (simp add: window_def sample_request_def)
  have c: "chronological_strategy sample_env (Num 20) (Num 0)
       = (\<lparr>status = 200, body = Posts (Rows (posts scenario_db)) ''chronological''\<rparr>, [])"
    "chronological_strategy ?failing (Num 20) (Num 0)
       = (\<lparr>status = 200, body = Posts (Rows (posts scenario_db)) ''chronological''\<rparr>, [])"
    by (simp_all add: chronological_strategy_def select_posts_def row_index_def js_plus_def
        js_minus_def json_response_def sample_env_def scenario_db_def)
  have n: "select_prefs scenario_db ''requester'' = None"
    by (simp add: select_prefs_def scenario_db_def)
  from preference_resolution_fails_soft [where env = sample_env and req = sample_request
      and userId = "''requester''" and pg = sample_pg and db = scenario_db and u = "''requester''"]
    u(1) r(1) w c(1) n
  have a: "serve_handler sample_env sample_request
       = (Responded \<lparr>status = 200, body = Posts (Rows (posts scenario_db)) ''chronological''\<rparr>,
          [Invoke Chronological])
     \<and> load_weights sample_pg (select_prefs scenario_db ''requester'')
       = \<lparr>like_weight = 1, comment_weight = 1 / 2, follower_weight = 1, recency_weight = 1\<rparr>"
    by (simp add: prod_eq_iff preferences_of_def)
  from preference_resolution_fails_soft [where env = ?failing and req = sample_request
      and userId = "''requester''" and e = "''timeout''"]
    u(2) r(2) w c(2)
  have b: "serve_handler ?failing sample_request
       = (Responded \<lparr>status = 200, body = Posts (Rows (posts scenario_db)) ''chronological''\<rparr>,
          [Console_error ''preferences error'', Invoke Chronological])"
    by (simp add: prod_eq_iff preferences_of_def)
  from a b n r(1) show ?thesis by (simp add: sample_env_def)
qed

section \<open>C4: the recency score\<close>

text \<open>
  C4, as amended. For a post that is not created after the instant of evaluation, the
  recency score is \<open>1 / (1 + hours_since_created)\<close> at that instant; it is greater than
  0 and at most 1, it is 1 exactly when the age of the post is zero, and every older post
  has a strictly smaller score. Every row the function returns carries the recency score
  of its own \<open>created_at\<close>.
\<close>

theorem recency_score_in_unit_interval:
  "(created \<le> now \<longrightarrow>
      (\<exists>s. recency now created = Inr s
         \<and> s = 1 / (1 + hours_since_created now created)
         \<and> 0 < s \<and> s \<le> 1
         \<and> (s = 1 \<longleftrightarrow> created = now)
         \<and> (\<forall>older. older < created \<longrightarrow> (\<exists>s'. recency now older = Inr s' \<and> s' < s))))
   \<and> (get_custom_ranked_feed pg db now u l off = Inr rows \<longrightarrow>
        (\<forall>r\<in>set rows. recency now (created_at r) = Inr (recency_score r)))"
proof (intro conjI impI)
  assume past: "created \<le> now"
  let ?h = "hours_since_created now created"
  let ?s = "1 / (1 + ?h)"
  have h: "0 \<le> ?h" using past by (rule hours_nonneg)
  have val: "recency now created = Inr ?s" using past by (rule recency_of_past)
  have pos: "0 < ?s" using h by simp
  have le: "?s \<le> 1" using h by simp
  have one: "?s = 1 \<longleftrightarrow> created = now"
  proof -
    have "?s = 1 \<longleftrightarrow> ?h = 0" using h by (simp add: field_simps)
    then show ?thesis by (simp add: hours_zero_iff)
  qed
  have mono: "\<exists>s'. recency now older = Inr s' \<and> s' < ?s" if "older < created" for older
  proof -
    from that past have "older \<le> now" by simp
    then have v: "recency now older = Inr (1 / (1 + hours_since_created now older))"
      by (rule recency_of_past)
    from that have "?h < hours_since_created now older" by (rule hours_strict_mono)
    with h have "1 / (1 + hours_since_created now older) < ?s"
      by (simp add: frac_less2)
    with v show ?thesis by blast
  qed
  from val pos le one mono
  show "\<exists>s. recency now created = Inr s
         \<and> s = 1 / (1 + hours_since_created now created)
         \<and> 0 < s \<and> s \<le> 1
         \<and> (s = 1 \<longleftrightarrow> created = now)
         \<and> (\<forall>older. older < created \<longrightarrow> (\<exists>s'. recency now older = Inr s' \<and> s' < s))"
    by blast
next
  assume "get_custom_ranked_feed pg db now u l off = Inr rows"
  then obtain full where "ranked pg db now u = Inr full" and "set rows \<subseteq> set full"
    by (rule get_rows_subset)
  then show "\<forall>r\<in>set rows. recency now (created_at r) = Inr (recency_score r)"
    by (blast dest: ranked_row_facts(1))
qed

text \<open>The theorem at the scenario: P1 is one hour old and scores one half.\<close>

theorem recency_score_in_unit_interval_witness:
  "(0::int) \<le> scenario_now
   \<and> recency scenario_now 0 = Inr (1 / 2)
   \<and> get_custom_ranked_feed sample_pg scenario_db scenario_now ''requester'' (Some 20) (Some 0)
       = Inr scenario_rows
   \<and> recency scenario_now (created_at (hd scenario_rows)) = Inr (recency_score (hd scenario_rows))
   \<and> recency scenario_now (created_at (last scenario_rows)) = Inr (recency_score (last scenario_rows))"
proof -
  have past: "(0::int) \<le> scenario_now" by (simp add: scenario_now_def)
  have rows: "get_custom_ranked_feed sample_pg scenario_db scenario_now ''requester'' (Some 20) (Some 0)
       = Inr scenario_rows" by (rule scenario_result)
  have half: "1 / (1 + hours_since_created scenario_now 0) = 1 / 2"
    by (simp add: hours_since_created_def extract_epoch_def scenario_now_def)
  from recency_score_in_unit_interval [where created = 0 and now = scenario_now and pg = sample_pg
      and db = scenario_db and u = "''requester''" and l = "Some 20" and off = "Some 0"
      and rows = scenario_rows] past rows half
  show ?thesis by (auto simp: scenario_rows_def)
qed

text \<open>C4 as stated fails for a post whose \<open>created_at\<close> lies after the instant of
  evaluation, which the insert policy of \<open>posts\<close> allows: half an hour ahead the score
  is 2, and one hour ahead the divisor is zero and the query raises.\<close>

theorem recency_score_future_post:
  "recency 0 1800000000 = Inr 2 \<and> \<not> (2 \<le> (1::numeric))
   \<and> recency 0 3600000000 = Inl Division_by_zero"
  by (simp add: recency_def hours_since_created_def extract_epoch_def)

section \<open>C5: at most \<open>limit\<close> items\<close>

text \<open>
  C5, as amended. For a requested limit L that is not negative the custom ranking returns
  at most L rows, and a negative limit or offset counts as zero there; the chronological
  strategy returns at most L rows when L is at least 1; the third-party strategy issues at
  most one call, which carries the limit and the offset as they are, and when that call is
  answered with a success status and a JSON body, the strategy's response is that body,
  whole and unchanged, under \<open>posts\<close> with status 200, whatever its length. In the handler a window that is a number is never negative: a
  negative limit or offset, from the query or from the body, is replaced by zero before
  any strategy reads it.
\<close>

theorem at_most_limit_items:
  "(get_custom_ranked_feed pg db now u (Some L) (Some off) = Inr rows \<and> 0 \<le> L \<longrightarrow>
       int (length rows) \<le> L)
   \<and> get_custom_ranked_feed pg db now u (Some L) (Some off)
       = get_custom_ranked_feed pg db now u (Some (max L 0)) (Some (max off 0))
   \<and> (chronological_strategy env (Num (of_nat n)) (Num (of_nat k)) = (r, evs)
        \<and> body r = Posts (Rows posts_page) name \<and> 1 \<le> n \<longrightarrow>
       length posts_page \<le> n)
   \<and> fetches (snd (third_party_strategy env prefs userId auth limit offset))
       = (if falsy (endpoint_of prefs)
             \<or> \<not> url_parses env (to_string (number_to_string env) (endpoint_of prefs))
          then [] else [outbound_call env prefs userId auth limit offset])
   \<and> param_limit (outbound_call env prefs userId auth limit offset) = limit
   \<and> param_offset (outbound_call env prefs userId auth limit offset) = offset
   \<and> (\<not> falsy (endpoint_of prefs)
        \<and> url_parses env (to_string (number_to_string env) (endpoint_of prefs))
        \<and> fetch env (outbound_call env prefs userId auth limit offset) = Reply st (Some d)
        \<and> 200 \<le> st \<and> st \<le> 299 \<longrightarrow>
       third_party_strategy env prefs userId auth limit offset
         = (json_response (Posts (Data d) ''third_party'') 200,
            [Fetch (outbound_call env prefs userId auth limit offset)]))
   \<and> (fst (window req) = Num q \<longrightarrow> 0 \<le> q)
   \<and> (snd (window req) = Num q \<longrightarrow> 0 \<le> q)
   \<and> ((req_method req = ''GET'' \<or> req_json req = None) \<and> query_limit req = Some s
        \<and> parseInt s = Num x \<and> x < 0 \<longrightarrow> fst (window req) = Num 0)
   \<and> ((req_method req = ''GET'' \<or> req_json req = None) \<and> query_offset req = Some s
        \<and> parseInt s = Num x \<and> x < 0 \<longrightarrow> snd (window req) = Num 0)
   \<and> (req_method req \<noteq> ''GET'' \<and> req_json req = Some b
        \<and> get_property b ''limit'' = Some (JNum x) \<and> x < 0 \<longrightarrow> fst (window req) = Num 0)
   \<and> (req_method req \<noteq> ''GET'' \<and> req_json req = Some b
        \<and> get_property b ''offset'' = Some (JNum x) \<and> x < 0 \<longrightarrow> snd (window req) = Num 0)"
proof -
  have custom: "int (length rows) \<le> L"
    if "get_custom_ranked_feed pg db now u (Some L) (Some off) = Inr rows \<and> 0 \<le> L"
    using get_at_most [of pg db now u "Some L" "Some off" rows] that by (simp add: greatest_0_def)
  have chrono: "length posts_page \<le> n"
    if "chronological_strategy env (Num (of_nat n)) (Num (of_nat k)) = (r, evs)
        \<and> body r = Posts (Rows posts_page) name \<and> 1 \<le> n"
    using that chronological_at_most by blast
  have params: "param_limit (outbound_call env prefs userId auth limit offset) = limit"
    "param_offset (outbound_call env prefs userId auth limit offset) = offset"
    by (simp_all add: outbound_call_def)
  have pass: "third_party_strategy env prefs userId auth limit offset
         = (json_response (Posts (Data d) ''third_party'') 200,
            [Fetch (outbound_call env prefs userId auth limit offset)])"
    if "\<not> falsy (endpoint_of prefs)
        \<and> url_parses env (to_string (number_to_string env) (endpoint_of prefs))
        \<and> fetch env (outbound_call env prefs userId auth limit offset) = Reply st (Some d)
        \<and> 200 \<le> st \<and> st \<le> 299"
  proof (rule third_party_cases(6))
    show "\<not> falsy (endpoint_of prefs)" using that by blast
    show "url_parses env (to_string (number_to_string env) (endpoint_of prefs))"
      using that by blast
    show "fetch env (outbound_call env prefs userId auth limit offset) = Reply st (Some d)"
      using that by blast
    show "200 \<le> st \<and> st \<le> 299" using that by blast
  qed
  have q1: "fst (window req) = Num 0"
    if "(req_method req = ''GET'' \<or> req_json req = None) \<and> query_limit req = Some s
        \<and> parseInt s = Num x \<and> x < 0"
    using that by (simp add: window_query)
  have q2: "snd (window req) = Num 0"
    if "(req_method req = ''GET'' \<or> req_json req = None) \<and> query_offset req = Some s
        \<and> parseInt s = Num x \<and> x < 0"
    using that by (simp add: window_query)
  have b1: "fst (window req) = Num 0"
    if "req_method req \<noteq> ''GET'' \<and> req_json req = Some b
        \<and> get_property b ''limit'' = Some (JNum x) \<and> x < 0"
    using that by (simp add: window_body(1))
  have b2: "snd (window req) = Num 0"
    if "req_method req \<noteq> ''GET'' \<and> req_json req = Some b
        \<and> get_property b ''offset'' = Some (JNum x) \<and> x < 0"
    using that by (simp add: window_body(2))
  have w1: "fst (window req) = Num q \<longrightarrow> 0 \<le> q" and w2: "snd (window req) = Num q \<longrightarrow> 0 \<le> q"
    using window_not_negative [of req q] by simp_all
  show ?thesis
    apply (intro conjI impI)
               apply (erule custom)
              apply (rule get_clamps)
             apply (erule chrono)
            apply (rule third_party_fetches)
           apply (rule params(1))
          apply (rule params(2))
          apply (erule pass)
         apply (erule w1 [rule_format])
        apply (erule w2 [rule_format])
       apply (erule q1)
      apply (erule q2)
     apply (erule b1)
    apply (erule b2)
    done
qed

text \<open>The theorem at the scenario: a limit of 1, a negative window, a page of the
  chronological strategy, and an upstream that answers two items, both handed back.\<close>

theorem at_most_limit_items_witness:
  "map_sum id (map post_id)
     (get_custom_ranked_feed sample_pg scenario_db scenario_now ''requester'' (Some 1) (Some 0))
     = Inr [''P1'']
   \<and> get_custom_ranked_feed sample_pg scenario_db scenario_now ''requester'' (Some (- 1)) (Some (- 2))
     = Inr []
   \<and> chronological_strategy sample_env (Num 1) (Num 1)
     = (\<lparr>status = 200,
         body = Posts (Rows [\<lparr>p_id = ''P1'', p_author_id = ''ann'', p_text_content = Some ''hello'',
                               p_created_at = 0\<rparr>]) ''chronological''\<rparr>, [])
   \<and> third_party_strategy generous_upstream (prefs_third_party ''https://ranker.example/feed'') ''requester'' ''Bearer token''
         (Num 1) (Num 0)
       = (\<lparr>status = 200,
           body = Posts (Data (JArr [JStr ''first'', JStr ''second''])) ''third_party''\<rparr>,
          [Fetch \<lparr>url = ''https://ranker.example/feed'', param_user_id = ''requester'',
                  param_limit = Num 1, param_offset = Num 0,
                  header_authorization = ''Bearer token''\<rparr>])
   \<and> fst (window (get_with_query ''-3'' ''-4'')) = Num 0
   \<and> snd (window (get_with_query ''-3'' ''-4'')) = Num 0
   \<and> snd (window post_with_body) = Num 0"
proof -
  have one: "get_custom_ranked_feed sample_pg scenario_db scenario_now ''requester'' (Some 1) (Some 0)
     = Inr [hd scenario_rows]"
    by (simp add: ranking_defs scenario_db_def scenario_now_def scenario_rows_def)
  have zero: "get_custom_ranked_feed sample_pg scenario_db scenario_now ''requester'' (Some 0) (Some 0)
     = Inr []"
    by (simp add: ranking_defs scenario_db_def scenario_now_def)
  have page: "chronological_strategy sample_env (Num 1) (Num 1)
     = (\<lparr>status = 200,
         body = Posts (Rows [\<lparr>p_id = ''P1'', p_author_id = ''ann'', p_text_content = Some ''hello'',
                               p_created_at = 0\<rparr>]) ''chronological''\<rparr>, [])"
    by (simp add: chronological_strategy_def select_posts_def row_index_def js_plus_def js_minus_def
        json_response_def sample_env_def scenario_db_def)
  have g: "req_method (get_with_query ''-3'' ''-4'') = ''GET''"
    "query_limit (get_with_query ''-3'' ''-4'') = Some ''-3''"
    "query_offset (get_with_query ''-3'' ''-4'') = Some ''-4''"
    by (simp_all add: get_with_query_def)
  have p: "req_method post_with_body \<noteq> ''GET''"
    "req_json post_with_body = Some (JObj [(''limit'', JNum 5), (''offset'', JNum (- 7))])"
    "get_property (JObj [(''limit'', JNum 5), (''offset'', JNum (- 7))]) ''offset'' = Some (JNum (- 7))"
    by (simp_all add: post_with_body_def get_property_def)
  have a: "get_custom_ranked_feed sample_pg scenario_db scenario_now ''requester'' (Some (- 1)) (Some (- 2))
     = Inr []"
    using at_most_limit_items [where pg = sample_pg and db = scenario_db and now = scenario_now
        and u = "''requester''" and L = "- 1" and off = "- 2"] zero
    by simp
  have b: "fst (window (get_with_query ''-3'' ''-4'')) = Num 0"
    using at_most_limit_items [where req = "get_with_query ''-3'' ''-4''" and s = "''-3''" and x = "- 3"]
      g parseInt_samples by simp
  have c: "snd (window (get_with_query ''-3'' ''-4'')) = Num 0"
    using at_most_limit_items [where req = "get_with_query ''-3'' ''-4''" and s = "''-4''" and x = "- 4"]
      g parseInt_samples by simp
  have d: "snd (window post_with_body) = Num 0"
    using at_most_limit_items [where req = post_with_body and x = "- 7"
        and b = "JObj [(''limit'', JNum 5), (''offset'', JNum (- 7))]"] p by simp
  have up: "\<not> falsy (endpoint_of (prefs_third_party ''https://ranker.example/feed''))"
    "url_parses generous_upstream (to_string (number_to_string generous_upstream) (endpoint_of (prefs_third_party ''https://ranker.example/feed'')))"
    "fetch generous_upstream (outbound_call generous_upstream (prefs_third_party ''https://ranker.example/feed'') ''requester''
       ''Bearer token'' (Num 1) (Num 0)) = Reply 200 (Some two_items)"
    "outbound_call generous_upstream (prefs_third_party ''https://ranker.example/feed'') ''requester'' ''Bearer token'' (Num 1) (Num 0)
       = \<lparr>url = ''https://ranker.example/feed'', param_user_id = ''requester'',
          param_limit = Num 1, param_offset = Num 0, header_authorization = ''Bearer token''\<rparr>"
    by (simp_all add: handler_defs generous_upstream_def sample_env_def prefs_third_party_def)
  have e: "third_party_strategy generous_upstream (prefs_third_party ''https://ranker.example/feed'') ''requester'' ''Bearer token''
         (Num 1) (Num 0)
       = (\<lparr>status = 200,
           body = Posts (Data (JArr [JStr ''first'', JStr ''second''])) ''third_party''\<rparr>,
          [Fetch \<lparr>url = ''https://ranker.example/feed'', param_user_id = ''requester'',
                  param_limit = Num 1, param_offset = Num 0,
                  header_authorization = ''Bearer token''\<rparr>])"
    using at_most_limit_items [where env = generous_upstream and prefs = "prefs_third_party ''https://ranker.example/feed''"
        and userId = "''requester''" and auth = "''Bearer token''" and limit = "Num 1"
        and offset = "Num 0" and st = 200 and d = two_items] up
    by (simp add: json_response_def two_items_def)
  from one a page e b c d show ?thesis by (simp add: scenario_rows_def)
qed

text \<open>C5 as stated fails for the third-party strategy: the body of the upstream's answer
  is handed back as it is, here two items for the limit 1.\<close>

theorem third_party_returns_more_than_limit:
  "window (get_with_query ''1'' ''0'') = (Num 1, Num 0)
   \<and> serve_handler generous_upstream (get_with_query ''1'' ''0'')
       = (Responded \<lparr>status = 200,
                     body = Posts (Data (JArr [JStr ''first'', JStr ''second''])) ''third_party''\<rparr>,
          [Invoke Third_party,
           Fetch \<lparr>url = ''https://ranker.example/feed'', param_user_id = ''requester'',
                  param_limit = Num 1, param_offset = Num 0,
                  header_authorization = ''Bearer token''\<rparr>])"
  by (simp add: handler_defs generous_upstream_def sample_env_def get_with_query_def
      prefs_third_party_def two_items_def)

text \<open>The chronological strategy with the limit 0 asks for the range from \<open>offset\<close> to
  \<open>max(offset + 0 - 1, offset) = offset\<close>, both included, which is one row.\<close>

lemma chronological_limit_zero:
  "window (get_with_query ''0'' ''0'') = (Num 0, Num 0)
   \<and> serve_handler sample_env (get_with_query ''0'' ''0'')
       = (Responded \<lparr>status = 200,
                     body = Posts (Rows [\<lparr>p_id = ''P2'', p_author_id = ''bob'', p_text_content = None,
                                           p_created_at = 3600000000\<rparr>]) ''chronological''\<rparr>,
          [Invoke Chronological])"
  by (simp add: handler_defs sample_env_def get_with_query_def scenario_db_def)

section \<open>C6: the dispatch\<close>

text \<open>
  C6. The dispatcher runs the strategy whose name is the resolved \<open>algorithm_id\<close> and
  falls back to the chronological strategy for every other value. The handler does so for
  \<open>nonexistent\<close>, but not for \<open>constructor\<close>: \<open>strategies["constructor"]\<close> is the
  function \<open>Object\<close> that the object literal inherits, the operator \<open>??\<close> keeps it, no
  strategy runs, and the handler resolves with an empty object instead of a response.
\<close>

theorem inherited_key_bypasses_fallback:
  "serve_handler (with_preferences (prefs_with_algorithm ''constructor'')) sample_request
     = (Returned (JObj []), [])
   \<and> serve_handler (with_preferences (prefs_with_algorithm ''nonexistent'')) sample_request
     = (Responded \<lparr>status = 200, body = Posts (Rows (posts scenario_db)) ''chronological''\<rparr>,
        [Invoke Chronological])"
  by (simp add: handler_defs with_preferences_def sample_env_def sample_request_def
      prefs_with_algorithm_def scenario_db_def)

section \<open>C7: the third-party strategy\<close>

text \<open>
  C7, as amended. When the third-party strategy is selected: an endpoint that is absent,
  null or empty gives the status 400 with \<open>missing_third_party_endpoint\<close> and no network
  call; an endpoint that \<open>new URL\<close> rejects gives the status 500 with
  \<open>third_party_exception\<close>, again with no network call; an endpoint that is called and
  answers with a status outside 200 to 299 gives the status 502; a call that throws gives
  the status 500; and the strategy issues at most one call, so nothing is retried.
\<close>

theorem third_party_outcomes:
  "(falsy (endpoint_of prefs) \<longrightarrow>
      third_party_strategy env prefs userId auth limit offset
        = (json_response (Error ''missing_third_party_endpoint'') 400, []))
   \<and> (get_property prefs ''third_party_endpoint'' = None
        \<or> get_property prefs ''third_party_endpoint'' = Some JNull
        \<or> get_property prefs ''third_party_endpoint'' = Some (JStr []) \<longrightarrow>
      falsy (endpoint_of prefs))
   \<and> (\<not> falsy (endpoint_of prefs)
        \<and> \<not> url_parses env (to_string (number_to_string env) (endpoint_of prefs)) \<longrightarrow>
      third_party_strategy env prefs userId auth limit offset
        = (json_response (Error ''third_party_exception'') 500,
           [Console_error ''third_party exception'']))
   \<and> (\<not> falsy (endpoint_of prefs)
        \<and> url_parses env (to_string (number_to_string env) (endpoint_of prefs))
        \<and> fetch env (outbound_call env prefs userId auth limit offset) = Reply st b
        \<and> \<not> (200 \<le> st \<and> st \<le> 299) \<longrightarrow>
      third_party_strategy env prefs userId auth limit offset
        = (json_response (Error_status ''third_party_failed'' st) 502,
           [Fetch (outbound_call env prefs userId auth limit offset)]))
   \<and> (\<not> falsy (endpoint_of prefs)
        \<and> url_parses env (to_string (number_to_string env) (endpoint_of prefs))
        \<and> fetch env (outbound_call env prefs userId auth limit offset) = Network_error \<longrightarrow>
      third_party_strategy env prefs userId auth limit offset
        = (json_response (Error ''third_party_exception'') 500,
           [Fetch (outbound_call env prefs userId auth limit offset),
            Console_error ''third_party exception'']))
   \<and> length (fetches (snd (third_party_strategy env prefs userId auth limit offset))) \<le> 1
   \<and> (getUser env (case authorization req of None \<Rightarrow> [] | Some h \<Rightarrow> h) = Some userId
        \<and> preferences_of (read_preferences env userId) = (prefs, pevs)
        \<and> algorithm_id_of prefs = JStr ''third_party'' \<longrightarrow>
      serve_handler env req =
        (Responded (fst (third_party_strategy env prefs userId
                           (case authorization req of None \<Rightarrow> [] | Some h \<Rightarrow> h)
                           (fst (window req)) (snd (window req)))),
         pevs @ Invoke Third_party
              # snd (third_party_strategy env prefs userId
                       (case authorization req of None \<Rightarrow> [] | Some h \<Rightarrow> h)
                       (fst (window req)) (snd (window req)))))"
proof -
  have handler: "serve_handler env req =
        (Responded (fst (third_party_strategy env prefs userId
                           (case authorization req of None \<Rightarrow> [] | Some h \<Rightarrow> h)
                           (fst (window req)) (snd (window req)))),
         pevs @ Invoke Third_party
              # snd (third_party_strategy env prefs userId
                       (case authorization req of None \<Rightarrow> [] | Some h \<Rightarrow> h)
                       (fst (window req)) (snd (window req))))"
    if h: "getUser env (case authorization req of None \<Rightarrow> [] | Some h \<Rightarrow> h) = Some userId
        \<and> preferences_of (read_preferences env userId) = (prefs, pevs)
        \<and> algorithm_id_of prefs = JStr ''third_party''"
  proof -
    from h have x: "exec env (algorithm_id_of prefs) = Own Third_party" by simp
    from h have u: "getUser env (case authorization req of None \<Rightarrow> [] | Some h \<Rightarrow> h) = Some userId"
      and p: "preferences_of (read_preferences env userId) = (prefs, pevs)" by simp_all
    show ?thesis
      by (simp only: serve_handler_own [OF u p x] run_strategy_parts)
  qed
  show ?thesis
    apply (intro conjI impI)
          apply (erule third_party_cases(1))
         apply (erule falsy_absent)
        apply (elim conjE, erule (1) third_party_cases(2))
       apply (elim conjE, erule (3) third_party_cases(4))
      apply (elim conjE, erule (2) third_party_cases(3))
     apply (rule third_party_at_most_one_call)
    apply (erule handler)
    done
qed

text \<open>The theorem at an empty endpoint, at a missing one, at a malformed one, at an
  upstream that answers 503 and at one that cannot be reached.\<close>

theorem third_party_outcomes_witness:
  "serve_handler (with_preferences (prefs_third_party [])) sample_request
     = (Responded \<lparr>status = 400, body = Error ''missing_third_party_endpoint''\<rparr>,
        [Invoke Third_party])
   \<and> serve_handler (with_preferences (prefs_with_algorithm ''third_party'')) sample_request
     = (Responded \<lparr>status = 400, body = Error ''missing_third_party_endpoint''\<rparr>,
        [Invoke Third_party])
   \<and> serve_handler (with_preferences (prefs_third_party ''not a url'')) sample_request
     = (Responded \<lparr>status = 500, body = Error ''third_party_exception''\<rparr>,
        [Invoke Third_party, Console_error ''third_party exception''])
   \<and> fst (serve_handler failing_upstream sample_request)
     = Responded \<lparr>status = 502, body = Error_status ''third_party_failed'' 503\<rparr>
   \<and> fetches (snd (serve_handler failing_upstream sample_request))
     = [\<lparr>url = ''https://ranker.example/feed'', param_user_id = ''requester'',
         param_limit = Num 20, param_offset = Num 0, header_authorization = ''Bearer token''\<rparr>]
   \<and> fst (serve_handler (with_preferences (prefs_third_party ''https://ranker.example/feed''))
          sample_request)
     = Responded \<lparr>status = 500, body = Error ''third_party_exception''\<rparr>"
proof -
  let ?auth = "case authorization sample_request of None \<Rightarrow> [] | Some h \<Rightarrow> h"
  have w: "window sample_request = (Num 20, Num 0)"
    by (simp add: window_def sample_request_def)
  have pr: "preferences_of (read_preferences (with_preferences j) ''requester'')
      = (if j = JNull then JObj [] else j, [])" for j
    by (simp add: preferences_of_def with_preferences_def)
  have pf: "preferences_of (read_preferences failing_upstream ''requester'')
      = (prefs_third_party ''https://ranker.example/feed'', [])"
    by (simp add: preferences_of_def failing_upstream_def prefs_third_party_def)
  have alg: "algorithm_id_of (prefs_third_party e) = JStr ''third_party''"
    "algorithm_id_of (prefs_with_algorithm ''third_party'') = JStr ''third_party''" for e
    by (simp_all add: algorithm_id_of_def get_property_def nullish_or_def prefs_third_party_def
        prefs_with_algorithm_def)
  have nn: "prefs_third_party e \<noteq> JNull" "prefs_with_algorithm a \<noteq> JNull" for e a
    by (simp_all add: prefs_third_party_def prefs_with_algorithm_def)
  have ep: "endpoint_of (prefs_third_party e) = JStr e"
    "endpoint_of (prefs_with_algorithm ''third_party'') = JStr []" for e
    by (simp_all add: endpoint_of_def get_property_def nullish_or_def prefs_third_party_def
        prefs_with_algorithm_def)
  have env: "url_parses (with_preferences j) = (\<lambda>s. take 8 s = ''https://'')"
    "url_parses failing_upstream = (\<lambda>s. take 8 s = ''https://'')"
    "fetch (with_preferences j) = (\<lambda>_. Network_error)"
    "fetch failing_upstream = (\<lambda>_. Reply 503 None)" for j
    by (simp_all add: with_preferences_def failing_upstream_def sample_env_def)
  have auth: "?auth = ''Bearer token''" by (simp add: sample_request_def)
  note tp = third_party_outcomes [where req = sample_request and userId = "''requester''"
      and auth = ?auth and limit = "Num 20" and offset = "Num 0" and pevs = "[]"]
  have a: "serve_handler (with_preferences (prefs_third_party [])) sample_request
     = (Responded \<lparr>status = 400, body = Error ''missing_third_party_endpoint''\<rparr>,
        [Invoke Third_party])"
    using tp [where env = "with_preferences (prefs_third_party [])" and prefs = "prefs_third_party []"]
      sample_user(2) [of "prefs_third_party []"] pr [of "prefs_third_party []"] alg nn ep w
    by (simp add: falsy_def json_response_def)
  have b: "serve_handler (with_preferences (prefs_with_algorithm ''third_party'')) sample_request
     = (Responded \<lparr>status = 400, body = Error ''missing_third_party_endpoint''\<rparr>,
        [Invoke Third_party])"
    using tp [where env = "with_preferences (prefs_with_algorithm ''third_party'')"
        and prefs = "prefs_with_algorithm ''third_party''"]
      sample_user(2) [of "prefs_with_algorithm ''third_party''"]
      pr [of "prefs_with_algorithm ''third_party''"] alg nn ep w
    by (simp add: falsy_def json_response_def)
  have c: "serve_handler (with_preferences (prefs_third_party ''not a url'')) sample_request
     = (Responded \<lparr>status = 500, body = Error ''third_party_exception''\<rparr>,
        [Invoke Third_party, Console_error ''third_party exception''])"
    using tp [where env = "with_preferences (prefs_third_party ''not a url'')"
        and prefs = "prefs_third_party ''not a url''"]
      sample_user(2) [of "prefs_third_party ''not a url''"]
      pr [of "prefs_third_party ''not a url''"] alg nn ep w env
    by (simp add: falsy_def json_response_def)
  have d: "serve_handler failing_upstream sample_request
     = (Responded \<lparr>status = 502, body = Error_status ''third_party_failed'' 503\<rparr>,
        [Invoke Third_party,
         Fetch \<lparr>url = ''https://ranker.example/feed'', param_user_id = ''requester'',
                param_limit = Num 20, param_offset = Num 0, header_authorization = ''Bearer token''\<rparr>])"
    using tp [where env = failing_upstream and prefs = "prefs_third_party ''https://ranker.example/feed''"
        and st = 503 and b = None]
      sample_user(4) pf alg ep w env auth
    by (simp add: falsy_def json_response_def outbound_call_def)
  have e: "serve_handler (with_preferences (prefs_third_party ''https://ranker.example/feed''))
          sample_request
     = (Responded \<lparr>status = 500, body = Error ''third_party_exception''\<rparr>,
        [Invoke Third_party,
         Fetch \<lparr>url = ''https://ranker.example/feed'', param_user_id = ''requester'',
                param_limit = Num 20, param_offset = Num 0, header_authorization = ''Bearer token''\<rparr>,
         Console_error ''third_party exception''])"
    using tp [where env = "with_preferences (prefs_third_party ''https://ranker.example/feed'')"
        and prefs = "prefs_third_party ''https://ranker.example/feed''"]
      sample_user(2) [of "prefs_third_party ''https://ranker.example/feed''"]
      pr [of "prefs_third_party ''https://ranker.example/feed''"] alg nn ep w env auth
    by (simp add: falsy_def json_response_def outbound_call_def)
  from a b c d e show ?thesis by simp
qed

text \<open>C7 as stated fails for a malformed endpoint: \<open>new URL\<close> throws inside the
  \<open>try\<close> block, so the answer is the status 500 of the \<open>catch\<close>, not 400.\<close>

theorem malformed_endpoint_is_500:
  "\<not> url_parses sample_env ''not a url''
   \<and> serve_handler (with_preferences (prefs_third_party ''not a url'')) sample_request
       = (Responded \<lparr>status = 500, body = Error ''third_party_exception''\<rparr>,
          [Invoke Third_party, Console_error ''third_party exception''])"
  by (simp add: handler_defs with_preferences_def sample_env_def sample_request_def
      prefs_third_party_def)

section \<open>C8: the four weights\<close>

text \<open>
  C8. Each of \<open>like_weight\<close>, \<open>comment_weight\<close>, \<open>follower_weight\<close> and
  \<open>recency_weight\<close> is read from the stored record on its own: a weight whose text is
  not a numeric falls back to its default (1, 0.5, 1, 1), a weight whose text is a numeric
  takes the stored value, and a weight that is absent or null keeps its default, each
  whatever the other three hold. The ranking still succeeds: whatever the record holds,
  the function returns its rows, scored with these weights, whenever the counts fit an
  integer and no post lies exactly one hour ahead of the instant of evaluation.
\<close>

theorem weights_parsed_independently:
  "(  (arrow_text pg j ''like_weight'' = Some t1 \<and> numeric_in pg t1 = None \<longrightarrow>
         like_weight (load_weights pg (Some j)) = 1)
    \<and> (arrow_text pg j ''comment_weight'' = Some t2 \<and> numeric_in pg t2 = None \<longrightarrow>
         comment_weight (load_weights pg (Some j)) = 1 / 2)
    \<and> (arrow_text pg j ''follower_weight'' = Some t3 \<and> numeric_in pg t3 = None \<longrightarrow>
         follower_weight (load_weights pg (Some j)) = 1)
    \<and> (arrow_text pg j ''recency_weight'' = Some t4 \<and> numeric_in pg t4 = None \<longrightarrow>
         recency_weight (load_weights pg (Some j)) = 1))
   \<and> (  (arrow_text pg j ''like_weight'' = Some t1 \<and> numeric_in pg t1 = Some v1 \<longrightarrow>
         like_weight (load_weights pg (Some j)) = v1)
    \<and> (arrow_text pg j ''comment_weight'' = Some t2 \<and> numeric_in pg t2 = Some v2 \<longrightarrow>
         comment_weight (load_weights pg (Some j)) = v2)
    \<and> (arrow_text pg j ''follower_weight'' = Some t3 \<and> numeric_in pg t3 = Some v3 \<longrightarrow>
         follower_weight (load_weights pg (Some j)) = v3)
    \<and> (arrow_text pg j ''recency_weight'' = Some t4 \<and> numeric_in pg t4 = Some v4 \<longrightarrow>
         recency_weight (load_weights pg (Some j)) = v4))
   \<and> (  (arrow_text pg j ''like_weight'' = None \<longrightarrow> like_weight (load_weights pg (Some j)) = 1)
    \<and> (arrow_text pg j ''comment_weight'' = None \<longrightarrow>
         comment_weight (load_weights pg (Some j)) = 1 / 2)
    \<and> (arrow_text pg j ''follower_weight'' = None \<longrightarrow>
         follower_weight (load_weights pg (Some j)) = 1)
    \<and> (arrow_text pg j ''recency_weight'' = None \<longrightarrow>
         recency_weight (load_weights pg (Some j)) = 1))
   \<and> (select_prefs db u = Some j
       \<and> length (likes db) \<le> 2147483647 \<and> length (comments db) \<le> 2147483647
       \<and> (\<forall>b\<in>set (posts db). p_created_at b \<noteq> now + 3600000000) \<longrightarrow>
       (\<exists>rows. get_custom_ranked_feed pg db now u l off = Inr rows
          \<and> (\<forall>r\<in>set rows. final_score r = score (load_weights pg (Some j)) (joined_row.truncate r))))"
proof (intro conjI impI)
  assume h: "select_prefs db u = Some j
       \<and> length (likes db) \<le> 2147483647 \<and> length (comments db) \<le> 2147483647
       \<and> (\<forall>b\<in>set (posts db). p_created_at b \<noteq> now + 3600000000)"
  then have "\<exists>js. joined db now u = Inr js" by (simp add: joined_total)
  then obtain rows where rows: "get_custom_ranked_feed pg db now u l off = Inr rows"
    using get_total by blast
  have "final_score r = score (load_weights pg (Some j)) (joined_row.truncate r)"
    if "r \<in> set rows" for r
  proof -
    from rows obtain full where "ranked pg db now u = Inr full" and "set rows \<subseteq> set full"
      by (rule get_rows_subset)
    with that have "final_score r =
      like_weight (load_weights pg (select_prefs db u)) * of_int (like_count r)
      + comment_weight (load_weights pg (select_prefs db u)) * of_int (comment_count r)
      + follower_weight (load_weights pg (select_prefs db u)) * (if is_from_followed r then 1 else 0)
      + recency_weight (load_weights pg (select_prefs db u)) * recency_score r"
      by (blast dest: ranked_row_facts(2))
    with h show ?thesis by (simp add: score_def joined_row.truncate_def)
  qed
  with rows show "\<exists>rows. get_custom_ranked_feed pg db now u l off = Inr rows
          \<and> (\<forall>r\<in>set rows. final_score r = score (load_weights pg (Some j)) (joined_row.truncate r))"
    by blast
qed (simp_all add: load_weights_def declared_weights_def assign_weight_cases)

text \<open>The theorem at a record with a malformed like weight and recency weight, at a
  record with a malformed comment weight and follower weight, and at a null record.\<close>

theorem weights_parsed_independently_witness:
  "arrow_text sample_pg stored_prefs ''like_weight'' = Some ''heavy''
   \<and> numeric_in sample_pg ''heavy'' = None
   \<and> arrow_text sample_pg stored_prefs ''comment_weight'' = Some ''0.25''
   \<and> numeric_in sample_pg ''0.25'' = Some (1 / 4)
   \<and> arrow_text sample_pg stored_prefs ''follower_weight'' = Some ''2''
   \<and> numeric_in sample_pg ''2'' = Some 2
   \<and> arrow_text sample_pg stored_prefs ''recency_weight'' = Some ''soon''
   \<and> numeric_in sample_pg ''soon'' = None
   \<and> load_weights sample_pg (Some stored_prefs)
       = \<lparr>like_weight = 1, comment_weight = 1 / 4, follower_weight = 2, recency_weight = 1\<rparr>
   \<and> load_weights sample_pg (Some other_prefs)
       = \<lparr>like_weight = 2, comment_weight = 1 / 2, follower_weight = 1, recency_weight = 1 / 4\<rparr>
   \<and> load_weights sample_pg (Some JNull) = declared_weights
   \<and> select_prefs prefs_db ''requester'' = Some stored_prefs
   \<and> map_sum id (map (\<lambda>r. (post_id r, final_score r)))
         (get_custom_ranked_feed sample_pg prefs_db scenario_now ''requester'' (Some 20) (Some 0))
       = Inr [(''P2'', 4), (''P1'', 7 / 2)]"
proof -
  have a: "arrow_text sample_pg stored_prefs ''like_weight'' = Some ''heavy''"
    "arrow_text sample_pg stored_prefs ''comment_weight'' = Some ''0.25''"
    "arrow_text sample_pg stored_prefs ''follower_weight'' = Some ''2''"
    "arrow_text sample_pg stored_prefs ''recency_weight'' = Some ''soon''"
    by (simp_all add: arrow_text_def stored_prefs_def sample_pg_def)
  have b: "arrow_text sample_pg other_prefs ''like_weight'' = Some ''2''"
    "arrow_text sample_pg other_prefs ''comment_weight'' = Some ''true''"
    "arrow_text sample_pg other_prefs ''follower_weight'' = Some []"
    "arrow_text sample_pg other_prefs ''recency_weight'' = Some ''0.25''"
    by (simp_all add: arrow_text_def other_prefs_def sample_pg_def)
  have c: "arrow_text sample_pg JNull k = None" for k
    by (simp add: arrow_text_def)
  have n: "numeric_in sample_pg ''heavy'' = None" "numeric_in sample_pg ''0.25'' = Some (1 / 4)"
    "numeric_in sample_pg ''2'' = Some 2" "numeric_in sample_pg ''soon'' = None"
    "numeric_in sample_pg ''true'' = None" "numeric_in sample_pg [] = None"
    by (simp_all add: sample_pg_def)
  have db: "select_prefs prefs_db ''requester'' = Some stored_prefs"
    "length (likes prefs_db) \<le> 2147483647" "length (comments prefs_db) \<le> 2147483647"
    "\<forall>b\<in>set (posts prefs_db). p_created_at b \<noteq> scenario_now + 3600000000"
    by (simp_all add: select_prefs_def prefs_db_def scenario_db_def scenario_now_def)
  have rows: "map_sum id (map (\<lambda>r. (post_id r, final_score r)))
         (get_custom_ranked_feed sample_pg prefs_db scenario_now ''requester'' (Some 20) (Some 0))
       = Inr [(''P2'', 4), (''P1'', 7 / 2)]"
    by (simp add: ranking_defs assign_weight_def arrow_text_def prefs_db_def stored_prefs_def
        scenario_db_def scenario_now_def sample_pg_def)
  have wa: "load_weights sample_pg (Some stored_prefs)
       = \<lparr>like_weight = 1, comment_weight = 1 / 4, follower_weight = 2, recency_weight = 1\<rparr>"
    using weights_parsed_independently [where pg = sample_pg and j = stored_prefs
        and ?t1.0 = "''heavy''" and ?t2.0 = "''0.25''" and ?v2.0 = "1 / 4"
        and ?t3.0 = "''2''" and ?v3.0 = 2 and ?t4.0 = "''soon''"
        and db = prefs_db and u = "''requester''" and now = scenario_now
        and l = "Some 20" and off = "Some 0"] a n db
    by simp
  have wb: "load_weights sample_pg (Some other_prefs)
       = \<lparr>like_weight = 2, comment_weight = 1 / 2, follower_weight = 1, recency_weight = 1 / 4\<rparr>"
    using weights_parsed_independently [where pg = sample_pg and j = other_prefs
        and ?t1.0 = "''2''" and ?v1.0 = 2 and ?t2.0 = "''true''"
        and ?t3.0 = "[]" and ?t4.0 = "''0.25''" and ?v4.0 = "1 / 4"] b n
    by simp
  have wc: "load_weights sample_pg (Some JNull) = declared_weights"
    using weights_parsed_independently [where pg = sample_pg and j = JNull] c
    by (simp add: declared_weights_def)
  from a n wa wb wc db(1) rows show ?thesis by simp
qed

section \<open>C9: the window from the body\<close>

text \<open>
  C9, as amended. For a request whose method is not GET and whose body is JSON, a numeric
  \<open>limit\<close> or \<open>offset\<close> of the body is the limit or offset of the page, raised to zero
  when negative, whatever the query parameters hold. For a GET request, and for a request
  with no JSON body, the window is read from the query parameters alone. A window that is
  a number is never negative.
\<close>

theorem body_window_honoured:
  "(req_method req \<noteq> ''GET'' \<and> req_json req = Some b \<and> get_property b ''limit'' = Some (JNum x) \<longrightarrow>
      fst (window req) = Num (max x 0))
   \<and> (req_method req \<noteq> ''GET'' \<and> req_json req = Some b \<and> get_property b ''offset'' = Some (JNum y) \<longrightarrow>
      snd (window req) = Num (max y 0))
   \<and> (req_method req = ''GET'' \<or> req_json req = None \<longrightarrow>
      window req =
        (Math_max (parseInt (case query_limit req of None \<Rightarrow> ''20'' | Some s \<Rightarrow> s)) (Num 0),
         Math_max (parseInt (case query_offset req of None \<Rightarrow> ''0'' | Some s \<Rightarrow> s)) (Num 0)))
   \<and> (fst (window req) = Num q \<longrightarrow> 0 \<le> q)
   \<and> (snd (window req) = Num q \<longrightarrow> 0 \<le> q)"
proof (intro conjI impI)
  assume "req_method req \<noteq> ''GET'' \<and> req_json req = Some b \<and> get_property b ''limit'' = Some (JNum x)"
  then show "fst (window req) = Num (max x 0)" by (simp add: window_body(1))
next
  assume "req_method req \<noteq> ''GET'' \<and> req_json req = Some b \<and> get_property b ''offset'' = Some (JNum y)"
  then show "snd (window req) = Num (max y 0)" by (simp add: window_body(2))
next
  assume "req_method req = ''GET'' \<or> req_json req = None"
  then show "window req =
        (Math_max (parseInt (case query_limit req of None \<Rightarrow> ''20'' | Some s \<Rightarrow> s)) (Num 0),
         Math_max (parseInt (case query_offset req of None \<Rightarrow> ''0'' | Some s \<Rightarrow> s)) (Num 0))"
    by (rule window_query)
next
  assume "fst (window req) = Num q"
  then show "0 \<le> q" using window_not_negative by blast
next
  assume "snd (window req) = Num q"
  then show "0 \<le> q" using window_not_negative by blast
qed

text \<open>The theorem at a POST whose body overrides the query, and at a GET with a query.\<close>

theorem body_window_honoured_witness:
  "req_method post_with_body \<noteq> ''GET''
   \<and> query_limit post_with_body = Some ''3'' \<and> query_offset post_with_body = Some ''4''
   \<and> window post_with_body = (Num 5, Num 0)
   \<and> window (get_with_query ''3'' ''4'') = (Num 3, Num 4)"
proof -
  have m: "req_method post_with_body \<noteq> ''GET''"
    and j: "req_json post_with_body = Some (JObj [(''limit'', JNum 5), (''offset'', JNum (- 7))])"
    and p: "get_property (JObj [(''limit'', JNum 5), (''offset'', JNum (- 7))]) ''limit'' = Some (JNum 5)"
       "get_property (JObj [(''limit'', JNum 5), (''offset'', JNum (- 7))]) ''offset'' = Some (JNum (- 7))"
    by (simp_all add: post_with_body_def get_property_def)
  have g: "req_method (get_with_query ''3'' ''4'') = ''GET''"
    by (simp add: get_with_query_def)
  have three: "parseInt ''3'' = Num 3" and four: "parseInt ''4'' = Num 4"
    by (simp_all add: parseInt_def is_white_space_def is_digit_def digits_value_def)
  from body_window_honoured [where req = post_with_body
      and b = "JObj [(''limit'', JNum 5), (''offset'', JNum (- 7))]" and x = 5 and y = "- 7"] m j p
  have a: "window post_with_body = (Num 5, Num 0)" by (simp add: prod_eq_iff)
  from body_window_honoured [where req = "get_with_query ''3'' ''4''"] g
  have b: "window (get_with_query ''3'' ''4'') = (Num 3, Num 4)"
    by (simp add: get_with_query_def three four)
  from m a b show ?thesis by (simp add: post_with_body_def)
qed

text \<open>C9 as stated fails for a GET request: the handler reads the body only when the
  method is not GET, so the body's limit 5 and offset 7 are not honoured.\<close>

theorem get_request_ignores_body:
  "req_method get_with_body = ''GET''
   \<and> req_json get_with_body = Some (JObj [(''limit'', JNum 5), (''offset'', JNum 7)])
   \<and> window get_with_body = (Num 20, Num 0)"
  by (simp add: get_with_body_def window_def)

section \<open>C10: the default window\<close>

text \<open>
  C10. A request with no \<open>limit\<close> in the query and no \<open>limit\<close> member in a JSON body
  gets the limit 20, and a request with no \<open>offset\<close> in the query and no \<open>offset\<close>
  member in a JSON body gets the offset 0.
\<close>

theorem window_defaults:
  "(query_limit req = None \<and> (\<forall>b. req_json req = Some b \<longrightarrow> get_property b ''limit'' = None) \<longrightarrow>
      fst (window req) = Num 20)
   \<and> (query_offset req = None \<and> (\<forall>b. req_json req = Some b \<longrightarrow> get_property b ''offset'' = None) \<longrightarrow>
      snd (window req) = Num 0)"
proof (intro conjI impI)
  assume h: "query_limit req = None \<and> (\<forall>b. req_json req = Some b \<longrightarrow> get_property b ''limit'' = None)"
  show "fst (window req) = Num 20"
  proof (cases "req_method req = ''GET'' \<or> req_json req = None")
    case True
    then show ?thesis using h by (simp add: window_query)
  next
    case False
    then obtain b where b: "req_method req \<noteq> ''GET''" "req_json req = Some b" by auto
    with h have "get_property b ''limit'' = None" by simp
    with h show ?thesis by (simp add: window_body(1) [OF b])
  qed
next
  assume h: "query_offset req = None \<and> (\<forall>b. req_json req = Some b \<longrightarrow> get_property b ''offset'' = None)"
  show "snd (window req) = Num 0"
  proof (cases "req_method req = ''GET'' \<or> req_json req = None")
    case True
    then show ?thesis using h by (simp add: window_query)
  next
    case False
    then obtain b where b: "req_method req \<noteq> ''GET''" "req_json req = Some b" by auto
    with h have "get_property b ''offset'' = None" by simp
    with h show ?thesis by (simp add: window_body(2) [OF b])
  qed
qed

text \<open>The theorem at a request with neither, and at one whose body holds an offset only.\<close>

theorem window_defaults_witness:
  "query_limit sample_request = None \<and> query_offset sample_request = None
   \<and> req_json sample_request = None
   \<and> window sample_request = (Num 20, Num 0)
   \<and> get_property (JObj [(''offset'', JNum 40)]) ''limit'' = None
   \<and> fst (window (sample_request\<lparr>req_json := Some (JObj [(''offset'', JNum 40)])\<rparr>)) = Num 20
   \<and> snd (window (sample_request\<lparr>req_json := Some (JObj [(''offset'', JNum 40)])\<rparr>)) = Num 40"
proof -
  have a: "fst (window sample_request) = Num 20 \<and> snd (window sample_request) = Num 0"
    using window_defaults [of sample_request] by (simp add: sample_request_def)
  have b: "fst (window (sample_request\<lparr>req_json := Some (JObj [(''offset'', JNum 40)])\<rparr>)) = Num 20"
    using window_defaults [of "sample_request\<lparr>req_json := Some (JObj [(''offset'', JNum 40)])\<rparr>"]
    by (simp add: sample_request_def get_property_def)
  have c: "snd (window (sample_request\<lparr>req_json := Some (JObj [(''offset'', JNum 40)])\<rparr>)) = Num 40"
    by (simp add: window_def sample_request_def get_property_def)
  from a b c show ?thesis
    by (simp add: sample_request_def get_property_def prod_eq_iff)
qed

end
